theory Spec2Isabelle
  imports Main "HOL-Library.Sublist"
begin

section \<open>Python values shared by the models\<close>

text \<open>
  Tokens are Python values that are either \<open>None\<close> or a \<open>str\<close>: a \<open>string option\<close>.
  \<open>truthy\<close> is Python's truth test on such a value (\<open>if tok:\<close>, \<open>if not tok:\<close>):
  \<open>None\<close> and the empty string are false. \<open>py_str\<close> is the text an f-string
  interpolates for it.
\<close>

definition truthy :: "string option \<Rightarrow> bool" where
  "truthy v = (case v of None \<Rightarrow> False | Some s \<Rightarrow> s \<noteq> [])"

definition py_str :: "string option \<Rightarrow> string" where
  "py_str v = (case v of None \<Rightarrow> ''None'' | Some s \<Rightarrow> s)"

fun str_nat :: "nat \<Rightarrow> string" where
  "str_nat n =
     (if n < 10 then [char_of (48 + n)]
      else str_nat (n div 10) @ [char_of (48 + n mod 10)])"

declare str_nat.simps [simp del]

definition str_int :: "int \<Rightarrow> string" where
  "str_int i = (if i < 0 then CHR ''-'' # str_nat (nat (- i)) else str_nat (nat i))"

text \<open>
  Exceptions are values. The constructor records the exception class and the data its
  message is built from:
  \<^item> \<open>TokenRefreshFailed t\<close> is \<open>Exception(f"Token refresh failed: {t}")\<close> of
    \<open>ZohoClient._refresh_access_token\<close>;
  \<^item> \<open>ApiError st t\<close> is \<open>Exception(f"API error {st}: {t}")\<close> of
    \<open>ZohoClient._make_request\<close>;
  \<^item> \<open>ClientError e\<close> and \<open>RequestException e\<close> are what the HTTP libraries
    (aiohttp, requests) raise when no response arrives;
  \<^item> \<open>HTTPException st d\<close> is FastAPI's \<open>HTTPException(status_code=st, detail=d)\<close>;
  \<^item> \<open>CircuitOpen\<close> is \<open>Exception(f"Circuit breaker is OPEN for {func.__name__}")\<close>;
  \<^item> \<open>FuncRaised e\<close> is an exception of a function wrapped by a decorator;
  \<^item> \<open>OverflowError\<close> is what \<open>timedelta(seconds=n)\<close> and \<open>datetime + timedelta\<close>
    raise when the result is out of range.
\<close>

datatype py_exn =
    TokenRefreshFailed string
  | ApiError int string
  | ClientError string
  | RequestException string
  | HTTPException int string
  | KeyError string
  | ValueError string
  | JSONDecodeError
  | IndexError
  | TypeError
  | CircuitOpen
  | FuncRaised string
  | OverflowError

text \<open>
  A \<open>datetime\<close> is the number of microseconds since \<open>datetime.min\<close>, year 1, and
  \<open>datetime.max\<close>, the last microsecond of year 9999, is 315537897599999999. A
  \<open>timedelta\<close> is a number of microseconds; its days, rounded down, are at most
  999999999 in magnitude. \<open>timedelta(seconds=n)\<close> raises \<open>OverflowError\<close> outside
  that range, and so does the sum of a \<open>datetime\<close> and a \<open>timedelta\<close> that is no
  \<open>datetime\<close>.
\<close>

definition datetime_ok :: "int \<Rightarrow> bool" where
  "datetime_ok t = (0 \<le> t \<and> t \<le> 315537897599999999)"

definition timedelta_ok :: "int \<Rightarrow> bool" where
  "timedelta_ok d =
     (- 999999999 \<le> d div 86400000000 \<and> d div 86400000000 \<le> 999999999)"

text \<open>A dict with string keys, as the tools of the MCP server return it.\<close>

datatype py_val = Str string | Num int | Items "string list" | NoneVal

type_synonym py_dict = "(string \<times> py_val) list"

section \<open>The world outside: HTTP replies and the token file\<close>

text \<open>
  The JSON object of a token response: \<open>None\<close> in a field is an absent key.
\<close>

record token_data =
  td_access_token :: "string option"
  td_refresh_token :: "string option"
  td_expires_in :: "int option"

text \<open>
  A reply of the authorization endpoint: the call raises (no response), or there is a
  response with a status, a text and the result of \<open>response.json()\<close>, which is
  \<open>None\<close> when the body does not decode to a JSON object.
  A reply of the resource API likewise; its decoded body is represented by the list
  under its \<open>"data"\<close> key (\<open>[]\<close> when the key is absent).
\<close>

datatype auth_reply = AuthRaises string | AuthResponse int string "token_data option"

datatype api_reply = ApiRaises string | ApiResponse int string "string list option"

text \<open>
  The token file \<open>.tokens.json\<close>: missing, unreadable as a JSON object, or the document
  \<open>save_tokens\<close> writes.
\<close>

record file_doc =
  fd_access_token :: "string option"
  fd_refresh_token :: "string option"
  fd_created_at :: int
  fd_expires_in :: int

datatype token_file = Missing | Corrupt | Doc file_doc

type_synonym crm_record = "(string \<times> string) list"

text \<open>
  What a program sends, in order: a POST of a grant to the authorization endpoint, a
  request to the resource API (method, url, \<open>Authorization\<close> header, body), and for the
  asynchronous client a sleep (microseconds).
\<close>

datatype grant =
    RefreshGrant "string option" "string option" "string option"
  | ClientCredentialsGrant "string option" "string option"

datatype event =
    AuthPost grant
  | ApiCall string string string "crm_record list option"
  | Sleep int

fun is_api_call :: "event \<Rightarrow> bool" where
  "is_api_call (ApiCall m u h b) = True"
| "is_api_call e = False"

fun is_auth_post :: "event \<Rightarrow> bool" where
  "is_auth_post (AuthPost g) = True"
| "is_auth_post e = False"

section \<open>The MCP server (\<open>zoho_crm_mcp/server.py\<close>)\<close>

text \<open>
  The module's globals, the token file and the scripted world. \<open>auth_replies\<close> and
  \<open>api_replies\<close> are the replies the two endpoints will give, in order; a request
  made when the script is exhausted raises. \<open>file_writable\<close> says whether
  \<open>open(TOKEN_FILE, 'w')\<close> succeeds; \<open>time_now\<close> is \<open>int(time.time())\<close>.
\<close>

record server =
  ZOHO_CLIENT_ID :: "string option"
  ZOHO_CLIENT_SECRET :: "string option"
  ZOHO_REFRESH_TOKEN :: string
  ZOHO_ACCESS_TOKEN :: string
  ZOHO_CRM_BASE_URL :: string
  current_access_token :: "string option"
  current_refresh_token :: "string option"
  TOKEN_FILE :: token_file
  file_writable :: bool
  time_now :: int
  auth_replies :: "auth_reply list"
  api_replies :: "api_reply list"
  sent :: "event list"

definition requests_post :: "grant \<Rightarrow> server \<Rightarrow> auth_reply \<times> server" where
  "requests_post g s =
     (case auth_replies s of
        [] \<Rightarrow> (AuthRaises ''connection error'', s\<lparr>sent := sent s @ [AuthPost g]\<rparr>)
      | r # rs \<Rightarrow> (r, s\<lparr>auth_replies := rs, sent := sent s @ [AuthPost g]\<rparr>))"

definition requests_request ::
  "string \<Rightarrow> string \<Rightarrow> string \<Rightarrow> crm_record list option \<Rightarrow> server \<Rightarrow> api_reply \<times> server" where
  "requests_request method url hdr body s =
     (case api_replies s of
        [] \<Rightarrow> (ApiRaises ''connection error'', s\<lparr>sent := sent s @ [ApiCall method url hdr body]\<rparr>)
      | r # rs \<Rightarrow> (r, s\<lparr>api_replies := rs, sent := sent s @ [ApiCall method url hdr body]\<rparr>))"

definition load_tokens :: "server \<Rightarrow> bool \<times> server" where
  "load_tokens s =
     (case TOKEN_FILE s of
        Doc tokens \<Rightarrow>
          (True, s\<lparr>current_access_token := fd_access_token tokens,
                   current_refresh_token := fd_refresh_token tokens\<rparr>)
      | _ \<Rightarrow>
          (let s1 = (if ZOHO_ACCESS_TOKEN s \<noteq> ''Generate-from-OAuth''
                     then s\<lparr>current_access_token := Some (ZOHO_ACCESS_TOKEN s)\<rparr> else s);
               s2 = (if ZOHO_REFRESH_TOKEN s1 \<noteq> ''Generate-from-OAuth''
                     then s1\<lparr>current_refresh_token := Some (ZOHO_REFRESH_TOKEN s1)\<rparr> else s1)
           in (current_access_token s2 \<noteq> None, s2)))"

definition save_tokens ::
  "string option \<Rightarrow> string option \<Rightarrow> int option \<Rightarrow> server \<Rightarrow> server" where
  "save_tokens access_token refresh_token expires_in s =
     (let s1 = (if truthy access_token then s\<lparr>current_access_token := access_token\<rparr> else s);
          s2 = (if truthy refresh_token then s1\<lparr>current_refresh_token := refresh_token\<rparr> else s1);
          token_data = \<lparr>fd_access_token = current_access_token s2,
                        fd_refresh_token = current_refresh_token s2,
                        fd_created_at = time_now s2,
                        fd_expires_in =
                          (case expires_in of None \<Rightarrow> 3600
                           | Some e \<Rightarrow> if e = 0 then 3600 else e)\<rparr>
      in if file_writable s2 then s2\<lparr>TOKEN_FILE := Doc token_data\<rparr> else s2)"

text \<open>
  The dict \<open>refresh_access_token\<close> returns: \<open>{"error": msg}\<close> or
  \<open>{"success": True, "token": tok}\<close>.
\<close>

datatype refresh_result = RefreshError string | RefreshSuccess "string option"

fun is_success :: "refresh_result \<Rightarrow> bool" where
  "is_success (RefreshSuccess tok) = True"
| "is_success (RefreshError msg) = False"

definition refresh_access_token :: "server \<Rightarrow> refresh_result \<times> server" where
  "refresh_access_token s =
     (if \<not> truthy (current_refresh_token s)
      then (RefreshError ''No refresh token available. Need to complete OAuth setup first.'', s)
      else
        (case requests_post (RefreshGrant (current_refresh_token s) (ZOHO_CLIENT_ID s)
                               (ZOHO_CLIENT_SECRET s)) s of
           (AuthRaises e, s1) \<Rightarrow> (RefreshError (''Token refresh error: '' @ e), s1)
         | (AuthResponse status text js, s1) \<Rightarrow>
             if status = 200 then
               (case js of
                  None \<Rightarrow> (RefreshError ''Token refresh error: response is not JSON'', s1)
                | Some td \<Rightarrow>
                    (let s2 = s1\<lparr>current_access_token := td_access_token td\<rparr>;
                         s3 = save_tokens (current_access_token s2) None (td_expires_in td) s2
                     in (RefreshSuccess (current_access_token s3), s3)))
             else (RefreshError (''Token refresh failed: '' @ text), s1)))"

text \<open>
  The dict \<open>generate_oauth_tokens\<close> returns: success, or an error with the flag
  \<open>needs_authorization_code\<close>.
\<close>

datatype oauth_result = OAuthSuccess | OAuthError string bool

definition generate_oauth_tokens :: "server \<Rightarrow> oauth_result \<times> server" where
  "generate_oauth_tokens s =
     (if \<not> truthy (ZOHO_CLIENT_ID s) \<or> \<not> truthy (ZOHO_CLIENT_SECRET s)
      then (OAuthError ''Missing client credentials'' False, s)
      else
        (case requests_post (ClientCredentialsGrant (ZOHO_CLIENT_ID s) (ZOHO_CLIENT_SECRET s)) s of
           (AuthRaises e, s1) \<Rightarrow> (OAuthError (''OAuth generation error: '' @ e) False, s1)
         | (AuthResponse status text js, s1) \<Rightarrow>
             if status = 200 then
               (case js of
                  None \<Rightarrow> (OAuthError ''OAuth generation error: response is not JSON'' False, s1)
                | Some td \<Rightarrow>
                    (let expires_in = (case td_expires_in td of None \<Rightarrow> 3600 | Some e \<Rightarrow> e)
                     in (OAuthSuccess,
                         save_tokens (td_access_token td) (td_refresh_token td)
                           (Some expires_in) s1)))
             else (OAuthError (''OAuth token generation failed: '' @ text) True, s1)))"

definition ensure_valid_token :: "server \<Rightarrow> bool \<times> server" where
  "ensure_valid_token s =
     (let s1 = (if \<not> truthy (current_access_token s) then snd (load_tokens s) else s);
          (refreshed, s2) =
            (if truthy (current_refresh_token s1) \<and> \<not> truthy (current_access_token s1)
             then (case refresh_access_token s1 of (r, s') \<Rightarrow> (is_success r, s'))
             else (False, s1))
      in if refreshed then (True, s2)
         else if \<not> truthy (current_access_token s2) then
           (case generate_oauth_tokens s2 of
              (OAuthSuccess, s3) \<Rightarrow> (True, s3)
            | (OAuthError msg needs_code, s3) \<Rightarrow> (False, s3))
         else (True, s2))"

definition get_auth_headers :: "server \<Rightarrow> string \<times> server" where
  "get_auth_headers s =
     (let s1 = (if \<not> truthy (current_access_token s) then snd (ensure_valid_token s) else s)
      in (''Zoho-oauthtoken '' @ py_str (current_access_token s1), s1))"

definition make_authenticated_request ::
  "string \<Rightarrow> string \<Rightarrow> crm_record list option \<Rightarrow> server \<Rightarrow> (py_exn + api_reply) \<times> server" where
  "make_authenticated_request method url body s =
     (case get_auth_headers s of (headers, s1) \<Rightarrow>
        (case requests_request method url headers body s1 of
           (ApiRaises e, s2) \<Rightarrow> (Inl (RequestException e), s2)
         | (ApiResponse status text js, s2) \<Rightarrow>
             if status = 401 then
               (case refresh_access_token s2 of (refresh_result, s3) \<Rightarrow>
                  if is_success refresh_result then
                    (case get_auth_headers s3 of (headers', s4) \<Rightarrow>
                       (case requests_request method url headers' body s4 of
                          (ApiRaises e, s5) \<Rightarrow> (Inl (RequestException e), s5)
                        | (response, s5) \<Rightarrow> (Inr response, s5)))
                  else (Inr (ApiResponse status text js), s3))
             else (Inr (ApiResponse status text js), s2)))"

definition bulk_create_records ::
  "string \<Rightarrow> crm_record list \<Rightarrow> server \<Rightarrow> (py_exn + py_dict) \<times> server" where
  "bulk_create_records module_name records_data s =
     (let url = ZOHO_CRM_BASE_URL s @ ''/'' @ module_name
      in if length records_data > 100
         then (Inr [(''status'', Str ''error''),
                    (''message'', Str ''Maximum 100 records allowed per bulk operation'')], s)
         else
           (case make_authenticated_request ''POST'' url (Some records_data) s of
              (Inl e, s1) \<Rightarrow> (Inl e, s1)
            | (Inr (ApiRaises e), s1) \<Rightarrow> (Inl (RequestException e), s1)
            | (Inr (ApiResponse status text js), s1) \<Rightarrow>
                if status = 201 then
                  (case js of
                     None \<Rightarrow> (Inl JSONDecodeError, s1)
                   | Some data \<Rightarrow>
                       (Inr [(''status'', Str ''success''),
                             (''module'', Str module_name),
                             (''message'',
                                Str (str_nat (length records_data) @ '' records created successfully'')),
                             (''data'', Items data)], s1))
                else
                  (Inr [(''status'', Str ''error''),
                        (''module'', Str module_name),
                        (''message'', Str text),
                        (''code'', Num status)], s1)))"

definition set_refresh_token :: "string \<Rightarrow> server \<Rightarrow> py_dict \<times> server" where
  "set_refresh_token refresh_token s =
     (let s1 = s\<lparr>current_refresh_token := Some refresh_token\<rparr>;
          s2 = save_tokens None (Some refresh_token) None s1
      in case refresh_access_token s2 of
           (RefreshSuccess tok, s3) \<Rightarrow>
             ([(''status'', Str ''success''),
               (''message'', Str ''Refresh token set successfully and access token generated''),
               (''access_token'',
                  Str (if truthy (current_access_token s3)
                       then take 20 (py_str (current_access_token s3)) @ ''...''
                       else ''None''))], s3)
         | (RefreshError msg, s3) \<Rightarrow>
             ([(''status'', Str ''error''),
               (''message'',
                  Str (''Refresh token saved but failed to generate access token: '' @ msg))], s3))"

text \<open>A server state used to run the model on concrete inputs.\<close>

definition server0 :: server where
  "server0 =
     \<lparr>ZOHO_CLIENT_ID = Some ''id'', ZOHO_CLIENT_SECRET = Some ''secret'',
      ZOHO_REFRESH_TOKEN = ''Generate-from-OAuth'', ZOHO_ACCESS_TOKEN = ''Generate-from-OAuth'',
      ZOHO_CRM_BASE_URL = ''https://www.zohoapis.com/crm/v2'',
      current_access_token = None, current_refresh_token = None,
      TOKEN_FILE = Missing, file_writable = True, time_now = 1700000000,
      auth_replies = [], api_replies = [], sent = []\<rparr>"

definition restart :: "server \<Rightarrow> server" where
  \<comment> \<open>A new process: the module globals are \<open>None\<close> again, the file and the environment stay.\<close>
  "restart s = s\<lparr>current_access_token := None, current_refresh_token := None\<rparr>"

section \<open>The consolidated server (\<open>consolidated_zoho_mcp_server.py\<close>)\<close>

text \<open>
  \<open>zoho_config\<close>, the globals \<open>_access_token\<close>, \<open>_refresh_token\<close> and
  \<open>_token_expires_at\<close> (a \<open>datetime\<close>), the token file, and the world:
  \<open>cons_time\<close> is \<open>time.time()\<close> in microseconds, so that \<open>int(time.time())\<close> is
  \<open>cons_time s div 1000000\<close>; \<open>cons_datetime_now\<close> is \<open>datetime.now()\<close>;
  \<open>cons_fromtimestamp\<close> is \<open>datetime.fromtimestamp\<close> on whole seconds, which
  depends on the platform and its time zone: \<open>None\<close> where it raises
  (\<open>ValueError\<close>, \<open>OverflowError\<close> or \<open>OSError\<close>, all subclasses of
  \<open>Exception\<close>).
\<close>

record consolidated =
  config_client_id :: "string option"
  config_client_secret :: "string option"
  config_refresh_token :: "string option"
  cons_access_token :: "string option"
  cons_refresh_token :: "string option"
  cons_token_expires_at :: "int option"
  cons_TOKEN_FILE :: token_file
  cons_file_writable :: bool
  cons_time :: int
  cons_datetime_now :: int
  cons_fromtimestamp :: "int \<Rightarrow> int option"
  cons_auth_replies :: "auth_reply list"
  cons_events :: "event list"

text \<open>
  \<open>load_tokens\<close>: the two tokens are assigned before the expiry is computed, so when
  \<open>datetime.fromtimestamp\<close> raises, they stay assigned, the handler logs the error and
  the fallback to the environment follows.
\<close>

definition load_tokens_fallback :: "consolidated \<Rightarrow> bool \<times> consolidated" where
  "load_tokens_fallback s =
     (let s1 = (if truthy (config_refresh_token s)
                   \<and> config_refresh_token s \<noteq> Some ''Generate-from-OAuth''
                then s\<lparr>cons_refresh_token := config_refresh_token s\<rparr> else s)
      in (cons_access_token s1 \<noteq> None, s1))"

definition load_tokens_consolidated :: "consolidated \<Rightarrow> bool \<times> consolidated" where
  "load_tokens_consolidated s =
     (case cons_TOKEN_FILE s of
        Doc tokens \<Rightarrow>
          (let s1 = s\<lparr>cons_access_token := fd_access_token tokens,
                      cons_refresh_token := fd_refresh_token tokens\<rparr>
           in case cons_fromtimestamp s1 (fd_created_at tokens + fd_expires_in tokens - 300) of
                Some expiry \<Rightarrow> (True, s1\<lparr>cons_token_expires_at := Some expiry\<rparr>)
              | None \<Rightarrow> load_tokens_fallback s1)
      | _ \<Rightarrow> load_tokens_fallback s)"

definition save_tokens_consolidated ::
  "string option \<Rightarrow> string option \<Rightarrow> int option \<Rightarrow> consolidated \<Rightarrow> consolidated" where
  "save_tokens_consolidated access_token refresh_token expires_in s =
     (let s1 = (if truthy access_token then s\<lparr>cons_access_token := access_token\<rparr> else s);
          s2 = (if truthy refresh_token then s1\<lparr>cons_refresh_token := refresh_token\<rparr> else s1);
          token_data = \<lparr>fd_access_token = cons_access_token s2,
                        fd_refresh_token = cons_refresh_token s2,
                        fd_created_at = cons_time s2 div 1000000,
                        fd_expires_in =
                          (case expires_in of None \<Rightarrow> 3600
                           | Some e \<Rightarrow> if e = 0 then 3600 else e)\<rparr>
      in if cons_file_writable s2 then s2\<lparr>cons_TOKEN_FILE := Doc token_data\<rparr> else s2)"

definition restart_consolidated :: "consolidated \<Rightarrow> consolidated" where
  "restart_consolidated s =
     s\<lparr>cons_access_token := None, cons_refresh_token := None, cons_token_expires_at := None\<rparr>"

text \<open>
  \<open>get_valid_token\<close> (\<open>async\<close>), in the parts that the wait for the response to
  \<open>session.post\<close> separates: the check of the cached token, the POST that leaves,
  the response that arrives, and what is done with it. The wait for the body of the
  response is taken together with the wait for the response. An exception raised inside
  the \<open>try\<close> block is raised again as
  \<open>HTTPException(500, f"Token refresh error: {str(e)}")\<close>. What \<open>str(e)\<close> is depends
  on the library and its version: for an \<open>HTTPException\<close> the detail of the inner
  exception is written for it, for a body that is no JSON \<open>invalid JSON\<close>, and for an
  expiry out of range the message of the sum, \<open>date value out of range\<close>. The new
  token is assigned before the expiry is computed.
\<close>

definition cons_token_valid :: "consolidated \<Rightarrow> bool" where
  "cons_token_valid s =
     (truthy (cons_access_token s)
      \<and> (case cons_token_expires_at s of None \<Rightarrow> False
          | Some t \<Rightarrow> cons_datetime_now s < t))"

definition cons_post_sent :: "consolidated \<Rightarrow> consolidated" where
  "cons_post_sent s =
     s\<lparr>cons_events := cons_events s @
         [AuthPost (RefreshGrant (cons_refresh_token s) (config_client_id s)
                      (config_client_secret s))]\<rparr>"

definition cons_response_arrives :: "consolidated \<Rightarrow> auth_reply \<times> consolidated" where
  "cons_response_arrives s =
     (case cons_auth_replies s of
        [] \<Rightarrow> (AuthRaises ''connection error'', s)
      | r # rs \<Rightarrow> (r, s\<lparr>cons_auth_replies := rs\<rparr>))"

definition cons_token_response ::
  "auth_reply \<Rightarrow> consolidated \<Rightarrow> (py_exn + string) \<times> consolidated" where
  "cons_token_response reply s =
     (case reply of
        AuthRaises e \<Rightarrow> (Inl (HTTPException 500 (''Token refresh error: '' @ e)), s)
      | AuthResponse status text js \<Rightarrow>
          if status \<noteq> 200
          then (Inl (HTTPException 500
                       ''Token refresh error: Failed to refresh Zoho access token''), s)
          else
            (case js of
               None \<Rightarrow> (Inl (HTTPException 500 ''Token refresh error: invalid JSON''), s)
             | Some td \<Rightarrow>
                 (case td_access_token td of
                    None \<Rightarrow>
                      (Inl (HTTPException 500
                              ''Token refresh error: Invalid token response from Zoho''), s)
                  | Some tok \<Rightarrow>
                      (let s1 = s\<lparr>cons_access_token := Some tok\<rparr>;
                           expires_in =
                             (case td_expires_in td of None \<Rightarrow> 3600 | Some e \<Rightarrow> e);
                           d = (expires_in - 300) * 1000000
                       in if timedelta_ok d \<and> datetime_ok (cons_datetime_now s1 + d)
                          then
                            (Inr tok,
                             save_tokens_consolidated (Some tok) None (Some expires_in)
                               (s1\<lparr>cons_token_expires_at :=
                                     Some (cons_datetime_now s1 + d)\<rparr>))
                          else
                            (Inl (HTTPException 500
                                    ''Token refresh error: date value out of range''), s1)))))"

definition get_valid_token :: "consolidated \<Rightarrow> (py_exn + string) \<times> consolidated" where
  "get_valid_token s =
     (if cons_token_valid s then (Inr (py_str (cons_access_token s)), s)
      else if \<not> truthy (cons_refresh_token s)
      then (Inl (HTTPException 500 ''No refresh token available''), s)
      else (case cons_response_arrives (cons_post_sent s) of
              (reply, s1) \<Rightarrow> cons_token_response reply s1))"

text \<open>
  A state of the server in a process whose local time is UTC: the clock stands at
  2023-11-14 22:13:20.
\<close>

definition utc_fromtimestamp :: "int \<Rightarrow> int option" where
  "utc_fromtimestamp ts =
     (if - 62135596800 \<le> ts \<and> ts \<le> 253402300799
      then Some ((ts + 62135596800) * 1000000) else None)"

definition consolidated0 :: consolidated where
  "consolidated0 =
     \<lparr>config_client_id = Some ''id'', config_client_secret = Some ''secret'',
      config_refresh_token = None, cons_access_token = None, cons_refresh_token = None,
      cons_token_expires_at = None, cons_TOKEN_FILE = Missing, cons_file_writable = True,
      cons_time = 1700000000000000, cons_datetime_now = 63835596800000000,
      cons_fromtimestamp = utc_fromtimestamp, cons_auth_replies = [], cons_events = []\<rparr>"

section \<open>The legacy server (\<open>legacy_zoho_mcp/zoho_mcp_server.py\<close>)\<close>

definition py_upper :: "string \<Rightarrow> string" where
  "py_upper s =
     map (\<lambda>c. if 97 \<le> (of_char c :: nat) \<and> (of_char c :: nat) \<le> 122
              then char_of ((of_char c :: nat) - 32) else c) s"

text \<open>
  \<open>ZOHO_CONFIG\<close>, the globals \<open>_access_token\<close> and \<open>_token_expires_at\<close>, the clock
  \<open>datetime.now()\<close> (seconds) and the scripted world. \<open>response.json()\<close> on a body
  that is not JSON raises the \<open>JSONDecodeError\<close> of \<open>requests\<close>, which is a
  \<open>RequestException\<close> (requests 2.27 and later) and so is caught by the handlers below.
  The range of \<open>datetime\<close> is not modelled for this server: its \<open>get_valid_token\<close>
  enters the properties below only through the hypothesis that it returned a token.
\<close>

record legacy =
  leg_refresh_token :: "string option"
  leg_client_id :: "string option"
  leg_client_secret :: "string option"
  leg_base_url :: string
  leg_access_token :: "string option"
  leg_token_expires_at :: "int option"
  leg_now :: int
  leg_auth_replies :: "auth_reply list"
  leg_api_replies :: "api_reply list"
  leg_sent :: "event list"

definition legacy_post :: "grant \<Rightarrow> legacy \<Rightarrow> auth_reply \<times> legacy" where
  "legacy_post g s =
     (case leg_auth_replies s of
        [] \<Rightarrow> (AuthRaises ''connection error'', s\<lparr>leg_sent := leg_sent s @ [AuthPost g]\<rparr>)
      | r # rs \<Rightarrow> (r, s\<lparr>leg_auth_replies := rs, leg_sent := leg_sent s @ [AuthPost g]\<rparr>))"

definition legacy_request ::
  "string \<Rightarrow> string \<Rightarrow> string \<Rightarrow> crm_record list option \<Rightarrow> legacy \<Rightarrow> api_reply \<times> legacy" where
  "legacy_request method url hdr body s =
     (case leg_api_replies s of
        [] \<Rightarrow> (ApiRaises ''connection error'',
               s\<lparr>leg_sent := leg_sent s @ [ApiCall method url hdr body]\<rparr>)
      | r # rs \<Rightarrow> (r, s\<lparr>leg_api_replies := rs,
                       leg_sent := leg_sent s @ [ApiCall method url hdr body]\<rparr>))"

definition get_valid_token_legacy :: "legacy \<Rightarrow> (py_exn + string) \<times> legacy" where
  "get_valid_token_legacy s =
     (if truthy (leg_access_token s)
         \<and> (case leg_token_expires_at s of None \<Rightarrow> False | Some t \<Rightarrow> leg_now s < t)
      then (Inr (py_str (leg_access_token s)), s)
      else
        (case legacy_post (RefreshGrant (leg_refresh_token s) (leg_client_id s)
                             (leg_client_secret s)) s of
           (AuthRaises e, s1) \<Rightarrow>
             (Inl (HTTPException 500 (''Token refresh network error: '' @ e)), s1)
         | (AuthResponse status text js, s1) \<Rightarrow>
             if status \<noteq> 200
             then (Inl (HTTPException 500 ''Failed to refresh Zoho access token''), s1)
             else
               (case js of
                  None \<Rightarrow>
                    (Inl (HTTPException 500 ''Token refresh network error: invalid JSON''), s1)
                | Some td \<Rightarrow>
                    (case td_access_token td of
                       None \<Rightarrow>
                         (Inl (HTTPException 500 ''Invalid token response from Zoho''), s1)
                     | Some tok \<Rightarrow>
                         (let expires_in =
                                (case td_expires_in td of None \<Rightarrow> 3600 | Some e \<Rightarrow> e)
                          in (Inr tok,
                              s1\<lparr>leg_access_token := Some tok,
                                 leg_token_expires_at :=
                                   Some (leg_now s1 + (expires_in - 300))\<rparr>))))))"

definition make_zoho_request_legacy ::
  "string \<Rightarrow> string \<Rightarrow> crm_record list option \<Rightarrow> legacy
     \<Rightarrow> (py_exn + string list) \<times> legacy" where
  "make_zoho_request_legacy method endpoint data s =
     (case get_valid_token_legacy s of
        (Inl e, s1) \<Rightarrow> (Inl e, s1)
      | (Inr token, s1) \<Rightarrow>
          (let headers = ''Zoho-oauthtoken '' @ token;
               url = leg_base_url s1 @ endpoint
           in if py_upper method = ''GET'' \<or> py_upper method = ''POST''
                 \<or> py_upper method = ''PUT''
              then
                (case legacy_request (py_upper method) url headers
                        (if py_upper method = ''GET'' then None else data) s1 of
                   (ApiRaises e, s2) \<Rightarrow>
                     (Inl (HTTPException 500 (''Zoho API network error: '' @ e)), s2)
                 | (ApiResponse status text js, s2) \<Rightarrow>
                     if status \<noteq> 200 \<and> status \<noteq> 201
                     then (Inl (HTTPException 500
                                  (''Zoho API error: '' @ str_int status @ '' - ''
                                     @ take 200 text)), s2)
                     else
                       (case js of
                          None \<Rightarrow>
                            (Inl (HTTPException 500 ''Zoho API network error: invalid JSON''), s2)
                        | Some d \<Rightarrow> (Inr d, s2)))
              else (Inl (ValueError (''Unsupported HTTP method: '' @ method)), s1)))"

definition legacy0 :: legacy where
  "legacy0 =
     \<lparr>leg_refresh_token = Some ''RT'', leg_client_id = Some ''id'',
      leg_client_secret = Some ''secret'', leg_base_url = ''https://www.zohoapis.com/crm/v2'',
      leg_access_token = Some ''AT'', leg_token_expires_at = Some 2000, leg_now = 1000,
      leg_auth_replies = [], leg_api_replies = [], leg_sent = []\<rparr>"

section \<open>The asynchronous client (\<open>integrations/zoho/client.py\<close>, class \<open>ZohoClient\<close>)\<close>

text \<open>
  The fields of \<open>self\<close> and the scripted world. Times are microseconds, the resolution
  of \<open>datetime\<close>: \<open>utcnow\<close> is the clock \<open>datetime.utcnow()\<close> reads, a \<open>datetime\<close> is an
  integer on the same scale and a \<open>timedelta\<close> a difference of two. The clock moves
  when the client sleeps; between two calls a caller may set it forward.
\<close>

record zoho_client =
  client_id :: "string option"
  client_secret :: "string option"
  refresh_token :: "string option"
  access_token :: "string option"
  token_expires_at :: "int option"
  max_requests_per_minute :: int
  request_timestamps :: "int list"
  utcnow :: int
  zc_auth_replies :: "auth_reply list"
  zc_api_replies :: "api_reply list"
  zc_events :: "event list"

text \<open>
  \<open>session.post(self.auth_url, data=data)\<close> in two halves, before and after the point
  where the coroutine is suspended: the request leaves, and later the response arrives.
\<close>

definition post_sent :: "zoho_client \<Rightarrow> zoho_client" where
  "post_sent c =
     c\<lparr>zc_events := zc_events c @
         [AuthPost (RefreshGrant (refresh_token c) (client_id c) (client_secret c))]\<rparr>"

definition response_arrives :: "zoho_client \<Rightarrow> auth_reply \<times> zoho_client" where
  "response_arrives c =
     (case zc_auth_replies c of
        [] \<Rightarrow> (AuthRaises ''connection error'', c)
      | r # rs \<Rightarrow> (r, c\<lparr>zc_auth_replies := rs\<rparr>))"

definition session_post :: "zoho_client \<Rightarrow> auth_reply \<times> zoho_client" where
  "session_post c = response_arrives (post_sent c)"

definition session_request ::
  "string \<Rightarrow> string \<Rightarrow> string \<Rightarrow> crm_record list option \<Rightarrow> zoho_client
     \<Rightarrow> api_reply \<times> zoho_client" where
  "session_request method url hdr body c =
     (case zc_api_replies c of
        [] \<Rightarrow> (ApiRaises ''connection error'',
               c\<lparr>zc_events := zc_events c @ [ApiCall method url hdr body]\<rparr>)
      | r # rs \<Rightarrow> (r, c\<lparr>zc_api_replies := rs,
                       zc_events := zc_events c @ [ApiCall method url hdr body]\<rparr>))"

definition asyncio_sleep :: "int \<Rightarrow> zoho_client \<Rightarrow> zoho_client" where
  "asyncio_sleep d c = c\<lparr>utcnow := utcnow c + d, zc_events := zc_events c @ [Sleep d]\<rparr>"

text \<open>
  \<open>_refresh_access_token\<close>: the POST, and what is done with its response. The new
  token is assigned first; when the expiry \<open>datetime.utcnow() + timedelta(seconds=expires_in - 60)\<close>
  is out of range, \<open>OverflowError\<close> is raised with the new token stored and the old expiry
  kept.
\<close>

definition token_response ::
  "auth_reply \<Rightarrow> zoho_client \<Rightarrow> (py_exn + unit) \<times> zoho_client" where
  "token_response reply c1 =
     (case reply of
        AuthRaises e \<Rightarrow> (Inl (ClientError e), c1)
      | AuthResponse status text js \<Rightarrow>
          if status = 200 then
            (case js of
               None \<Rightarrow> (Inl JSONDecodeError, c1)
             | Some td \<Rightarrow>
                 (case td_access_token td of
                    None \<Rightarrow> (Inl (KeyError ''access_token''), c1)
                  | Some tok \<Rightarrow>
                      (let c2 = c1\<lparr>access_token := Some tok\<rparr>;
                           expires_in =
                             (case td_expires_in td of None \<Rightarrow> 3600 | Some e \<Rightarrow> e);
                           d = (expires_in - 60) * 1000000
                       in if timedelta_ok d \<and> datetime_ok (utcnow c2 + d)
                          then (Inr (), c2\<lparr>token_expires_at := Some (utcnow c2 + d)\<rparr>)
                          else (Inl OverflowError, c2))))
          else (Inl (TokenRefreshFailed text), c1))"

definition ZohoClient_refresh_access_token :: "zoho_client \<Rightarrow> (py_exn + unit) \<times> zoho_client" where
  "ZohoClient_refresh_access_token c =
     (case session_post c of (reply, c1) \<Rightarrow> token_response reply c1)"

text \<open>The condition of \<open>_ensure_valid_token\<close>.\<close>

definition needs_refresh :: "zoho_client \<Rightarrow> bool" where
  "needs_refresh c =
     (access_token c = None
      \<or> (case token_expires_at c of None \<Rightarrow> True | Some t \<Rightarrow> utcnow c \<ge> t))"

definition ZohoClient_ensure_valid_token :: "zoho_client \<Rightarrow> (py_exn + unit) \<times> zoho_client" where
  "ZohoClient_ensure_valid_token c =
     (if needs_refresh c then ZohoClient_refresh_access_token c else (Inr (), c))"

definition ZohoClient_rate_limit_check :: "zoho_client \<Rightarrow> (py_exn + unit) \<times> zoho_client" where
  "ZohoClient_rate_limit_check c =
     (let now = utcnow c;
          c1 = c\<lparr>request_timestamps :=
                   filter (\<lambda>ts. now - ts < 60000000) (request_timestamps c)\<rparr>
      in if int (length (request_timestamps c1)) \<ge> max_requests_per_minute c1 then
           (case request_timestamps c1 of
              [] \<Rightarrow> (Inl IndexError, c1)
            | ts0 # rest \<Rightarrow>
                (let sleep_time = 60000000 - (now - ts0);
                     c2 = (if sleep_time > 0 then asyncio_sleep sleep_time c1 else c1)
                 in (Inr (), c2\<lparr>request_timestamps := request_timestamps c2 @ [now]\<rparr>)))
         else (Inr (), c1\<lparr>request_timestamps := request_timestamps c1 @ [now]\<rparr>))"

text \<open>
  What \<open>_make_request\<close> returns: the decoded body, \<open>{}\<close> for an empty body,
  \<open>{"raw_response": text}\<close> when the body is not JSON, and \<open>None\<close> when the
  \<open>for\<close> loop ends without a \<open>return\<close>.
\<close>

datatype request_result =
    ReturnedNone
  | ReturnedEmptyDict
  | ReturnedJson "string list"
  | ReturnedRaw string

text \<open>
  The loop \<open>for attempt in range(3)\<close>, over the attempts still to run. \<open>hdr\<close> is
  \<open>headers["Authorization"]\<close>. An exception raised in the \<open>try\<close> block (no response,
  a failed refresh, the API error of a status of 400 or more) reaches the handler, which
  re-raises on attempt 2 and otherwise sleeps \<open>2 ** attempt\<close> seconds and goes on.
\<close>

fun request_attempts ::
  "nat list \<Rightarrow> string \<Rightarrow> string \<Rightarrow> crm_record list option \<Rightarrow> string \<Rightarrow> zoho_client
     \<Rightarrow> (py_exn + request_result) \<times> zoho_client" where
  "request_attempts [] method url body hdr c = (Inr ReturnedNone, c)"
| "request_attempts (attempt # rest) method url body hdr c =
     (case session_request method url hdr body c of
        (ApiRaises e, c1) \<Rightarrow>
          if attempt = 2 then (Inl (ClientError e), c1)
          else request_attempts rest method url body hdr
                 (asyncio_sleep (2 ^ attempt * 1000000) c1)
      | (ApiResponse status text js, c1) \<Rightarrow>
          if status = 401 then
            (case ZohoClient_refresh_access_token c1 of
               (Inl e, c2) \<Rightarrow>
                 if attempt = 2 then (Inl e, c2)
                 else request_attempts rest method url body hdr
                        (asyncio_sleep (2 ^ attempt * 1000000) c2)
             | (Inr u, c2) \<Rightarrow>
                 request_attempts rest method url body
                   (''Zoho-oauthtoken '' @ py_str (access_token c2)) c2)
          else if status \<ge> 400 then
            (if attempt = 2 then (Inl (ApiError status text), c1)
             else request_attempts rest method url body hdr
                    (asyncio_sleep (2 ^ attempt * 1000000) c1))
          else
            (Inr (if text = [] then ReturnedEmptyDict
                  else (case js of None \<Rightarrow> ReturnedRaw text | Some d \<Rightarrow> ReturnedJson d)),
             c1))"

definition ZohoClient_make_request ::
  "string \<Rightarrow> string \<Rightarrow> crm_record list option \<Rightarrow> zoho_client
     \<Rightarrow> (py_exn + request_result) \<times> zoho_client" where
  "ZohoClient_make_request method url body c =
     (case ZohoClient_ensure_valid_token c of
        (Inl e, c1) \<Rightarrow> (Inl e, c1)
      | (Inr u, c1) \<Rightarrow>
          (case ZohoClient_rate_limit_check c1 of
             (Inl e, c2) \<Rightarrow> (Inl e, c2)
           | (Inr u', c2) \<Rightarrow>
               request_attempts [0, 1, 2] method url body
                 (''Zoho-oauthtoken '' @ py_str (access_token c2)) c2))"

definition client0 :: zoho_client where
  "client0 =
     \<lparr>client_id = Some ''id'', client_secret = Some ''secret'', refresh_token = Some ''RT'',
      access_token = Some ''AT'', token_expires_at = Some 5000000000,
      max_requests_per_minute = 100, request_timestamps = [], utcnow = 1000000000,
      zc_auth_replies = [], zc_api_replies = [], zc_events = []\<rparr>"

section \<open>The circuit breaker (\<open>core/error_handler.py\<close>)\<close>

text \<open>
  The dict \<open>state\<close> of the decorator. \<open>last_failure\<close> is a \<open>datetime\<close> in microseconds.
  \<open>timedelta_seconds d\<close> is the attribute \<open>.seconds\<close> of a \<open>timedelta\<close> \<open>d\<close>: the seconds
  of its normalised form, days apart, between 0 and 86399.
\<close>

record circuit_state =
  failures :: int
  last_failure :: "int option"
  is_open :: bool

definition timedelta_seconds :: "int \<Rightarrow> int" where
  "timedelta_seconds d = (d mod 86400000000) div 1000000"

text \<open>
  The wrapper (\<open>sync_wrapper\<close> and \<open>async_wrapper\<close> have the same body). The wrapped
  function acts on a world \<open>'w\<close> and returns or raises; \<open>now\<close> reads
  \<open>datetime.now()\<close> from the world.
\<close>

definition call_wrapped ::
  "int \<Rightarrow> ('w \<Rightarrow> int) \<Rightarrow> ('w \<Rightarrow> (py_exn + 'a) \<times> 'w) \<Rightarrow> circuit_state \<Rightarrow> 'w
     \<Rightarrow> (py_exn + 'a) \<times> circuit_state \<times> 'w" where
  "call_wrapped failure_threshold now func state w =
     (case func w of
        (Inr result, w1) \<Rightarrow> (Inr result, state\<lparr>failures := 0\<rparr>, w1)
      | (Inl e, w1) \<Rightarrow>
          (let st1 = state\<lparr>failures := failures state + 1, last_failure := Some (now w1)\<rparr>;
               st2 = (if failures st1 \<ge> failure_threshold then st1\<lparr>is_open := True\<rparr> else st1)
           in (Inl e, st2, w1)))"

definition sync_wrapper ::
  "int \<Rightarrow> int \<Rightarrow> ('w \<Rightarrow> int) \<Rightarrow> ('w \<Rightarrow> (py_exn + 'a) \<times> 'w) \<Rightarrow> circuit_state \<Rightarrow> 'w
     \<Rightarrow> (py_exn + 'a) \<times> circuit_state \<times> 'w" where
  "sync_wrapper failure_threshold recovery_timeout now func state w =
     (if is_open state then
        (case last_failure state of
           None \<Rightarrow> (Inl TypeError, state, w)
         | Some lf \<Rightarrow>
             if timedelta_seconds (now w - lf) < recovery_timeout
             then (Inl CircuitOpen, state, w)
             else call_wrapped failure_threshold now func
                    (state\<lparr>is_open := False, failures := 0\<rparr>) w)
      else call_wrapped failure_threshold now func state w)"

text \<open>
  Two runs of the server. In the first there is no token at all and the authorization
  endpoint refuses the client-credentials grant. In the second the endpoint answers a
  refresh with status 200 and a body without \<open>access_token\<close>.
\<close>

definition server_no_credentials :: server where
  "server_no_credentials =
     server0\<lparr>auth_replies := [AuthResponse 400 ''invalid_client'' None],
             api_replies := [ApiResponse 401 ''INVALID_TOKEN'' None]\<rparr>"

definition server_reply_without_token :: server where
  "server_reply_without_token =
     server0\<lparr>current_access_token := Some ''AT_old'', current_refresh_token := Some ''RT_old'',
             auth_replies := [AuthResponse 200 ''invalid_code''
                (Some \<lparr>td_access_token = None, td_refresh_token = None, td_expires_in = None\<rparr>)]\<rparr>"





text \<open>
  Two wrapped functions for runs of the breaker; the world is the clock.
\<close>

definition always_fails :: "int \<Rightarrow> (py_exn + unit) \<times> int" where
  "always_fails w = (Inl (FuncRaised ''service down''), w)"

definition always_succeeds :: "int \<Rightarrow> (py_exn + unit) \<times> int" where
  "always_succeeds w = (Inr (), w)"

text \<open>A status of the 4xx class other than 401.\<close>

definition client_error :: "int \<Rightarrow> bool" where
  "client_error status = (400 \<le> status \<and> status < 500 \<and> status \<noteq> 401)"

text \<open>
  Runs of the client and of the legacy server against an API that answers 404, and a
  run of the client against an API that answers 401 twice and then 200.
\<close>

definition client_404_then_200 :: zoho_client where
  "client_404_then_200 =
     client0\<lparr>zc_api_replies := [ApiResponse 404 ''not found'' None,
                                ApiResponse 200 ''[]'' (Some [])]\<rparr>"

definition client_404_thrice :: zoho_client where
  "client_404_thrice =
     client0\<lparr>zc_api_replies := [ApiResponse 404 ''a'' None, ApiResponse 404 ''b'' None,
                                ApiResponse 404 ''c'' None]\<rparr>"

definition legacy_404 :: legacy where
  "legacy_404 = legacy0\<lparr>leg_api_replies := [ApiResponse 404 ''not found'' None]\<rparr>"

definition client_401_twice :: zoho_client where
  "client_401_twice =
     client0\<lparr>zc_api_replies := [ApiResponse 401 ''expired'' None, ApiResponse 401 ''expired'' None,
                                ApiResponse 200 ''[]'' (Some [])],
             zc_auth_replies :=
               [AuthResponse 200 ''ok''
                  (Some \<lparr>td_access_token = Some ''AT1'', td_refresh_token = None,
                         td_expires_in = Some 3600\<rparr>),
                AuthResponse 200 ''ok''
                  (Some \<lparr>td_access_token = Some ''AT2'', td_refresh_token = None,
                         td_expires_in = Some 3600\<rparr>)]\<rparr>"

text \<open>
  The part of the server's state that concerns the resource API: the replies it has
  still to give and the requests sent to it so far.
\<close>

definition api_side :: "server \<Rightarrow> api_reply list \<times> event list" where
  "api_side s = (api_replies s, filter is_api_call (sent s))"

text \<open>
  A run of the server: the API answers 401 twice, the refresh in between succeeds.
\<close>

definition server_401_twice :: server where
  "server_401_twice =
     server0\<lparr>current_access_token := Some ''AT'', current_refresh_token := Some ''RT'',
             api_replies := [ApiResponse 401 ''expired'' None, ApiResponse 401 ''expired'' None],
             auth_replies :=
               [AuthResponse 200 ''ok''
                  (Some \<lparr>td_access_token = Some ''AT1'', td_refresh_token = None,
                         td_expires_in = Some 3600\<rparr>)]\<rparr>"

definition server_401_refresh_refused :: server where
  "server_401_refresh_refused =
     server0\<lparr>current_access_token := Some ''AT'', current_refresh_token := Some ''RT'',
             api_replies := [ApiResponse 401 ''expired'' None, ApiResponse 200 ''[]'' (Some [])],
             auth_replies := [AuthResponse 400 ''invalid_code'' None]\<rparr>"

section \<open>Callers that run concurrently\<close>

text \<open>
  The coroutines of a process run on one event loop: a coroutine runs alone until it is
  suspended at an \<open>await\<close> that waits for input. \<open>ZohoClient._ensure_valid_token\<close>
  and the consolidated server's \<open>get_valid_token\<close> each wait, between the check of
  the token and the assignment of the new one, for the response to \<open>session.post\<close>
  and then for its body; the two waits are taken as one, since nothing is read or
  written between them. A caller is therefore at one of three places: before its check
  of the token, waiting for the response to the POST it has sent, or back with a
  result. A step of a caller is the code between two such places: from the check to the
  POST (or to the return, when the check ends the call), and from the arrival of the
  response to the return. The source takes no lock and keeps no record of a refresh
  under way, so neither does a step. A schedule says which caller runs next, or that
  time passes.
\<close>

datatype 'r caller = AtCheck | AwaitingResponse | Returned "py_exn + 'r"

datatype schedule_item = Run nat | Pass int

fun caller_step ::
  "nat \<Rightarrow> zoho_client \<times> unit caller list \<Rightarrow> zoho_client \<times> unit caller list" where
  "caller_step i (c, callers) =
     (if i < length callers then
        (case callers ! i of
           AtCheck \<Rightarrow>
             if needs_refresh c then (post_sent c, callers[i := AwaitingResponse])
             else (c, callers[i := Returned (Inr ())])
         | AwaitingResponse \<Rightarrow>
             (case response_arrives c of (reply, c1) \<Rightarrow>
                (case token_response reply c1 of (result, c2) \<Rightarrow>
                   (c2, callers[i := Returned result])))
         | Returned result \<Rightarrow> (c, callers))
      else (c, callers))"

fun run_schedule ::
  "schedule_item list \<Rightarrow> zoho_client \<times> unit caller list
     \<Rightarrow> zoho_client \<times> unit caller list" where
  "run_schedule [] cfg = cfg"
| "run_schedule (Run i # items) cfg = run_schedule items (caller_step i cfg)"
| "run_schedule (Pass d # items) (c, callers) =
     run_schedule items (c\<lparr>utcnow := utcnow c + d\<rparr>, callers)"

fun caller_step_consolidated ::
  "nat \<Rightarrow> consolidated \<times> string caller list \<Rightarrow> consolidated \<times> string caller list" where
  "caller_step_consolidated i (s, callers) =
     (if i < length callers then
        (case callers ! i of
           AtCheck \<Rightarrow>
             if cons_token_valid s
             then (s, callers[i := Returned (Inr (py_str (cons_access_token s)))])
             else if \<not> truthy (cons_refresh_token s)
             then (s, callers[i := Returned (Inl (HTTPException 500
                                                  ''No refresh token available''))])
             else (cons_post_sent s, callers[i := AwaitingResponse])
         | AwaitingResponse \<Rightarrow>
             (case cons_response_arrives s of (reply, s1) \<Rightarrow>
                (case cons_token_response reply s1 of (result, s2) \<Rightarrow>
                   (s2, callers[i := Returned result])))
         | Returned result \<Rightarrow> (s, callers))
      else (s, callers))"

fun run_schedule_consolidated ::
  "schedule_item list \<Rightarrow> consolidated \<times> string caller list
     \<Rightarrow> consolidated \<times> string caller list" where
  "run_schedule_consolidated [] cfg = cfg"
| "run_schedule_consolidated (Run i # items) cfg =
     run_schedule_consolidated items (caller_step_consolidated i cfg)"
| "run_schedule_consolidated (Pass d # items) (s, callers) =
     run_schedule_consolidated items
       (s\<lparr>cons_time := cons_time s + d, cons_datetime_now := cons_datetime_now s + d\<rparr>,
        callers)"



section \<open>Properties of the MCP server\<close>

subsection \<open>The trace of sent requests only grows\<close>

lemma sent_save_tokens: "sent (save_tokens a r e s) = sent s"
  by (simp add: save_tokens_def Let_def)

lemma sent_load_tokens: "sent (snd (load_tokens s)) = sent s"
  by (simp add: load_tokens_def Let_def split: token_file.splits)

lemma prefix_requests_post: "prefix (sent s) (sent (snd (requests_post g s)))"
  by (simp add: requests_post_def split: list.splits)

lemma prefix_requests_request: "prefix (sent s) (sent (snd (requests_request m u h b s)))"
  by (simp add: requests_request_def split: list.splits)

lemma prefix_refresh_access_token: "prefix (sent s) (sent (snd (refresh_access_token s)))"
  using prefix_requests_post [of s "RefreshGrant (current_refresh_token s) (ZOHO_CLIENT_ID s) (ZOHO_CLIENT_SECRET s)"]
  by (auto simp: refresh_access_token_def sent_save_tokens Let_def
        split: prod.splits auth_reply.splits option.splits)

lemma prefix_generate_oauth_tokens: "prefix (sent s) (sent (snd (generate_oauth_tokens s)))"
  using prefix_requests_post [of s "ClientCredentialsGrant (ZOHO_CLIENT_ID s) (ZOHO_CLIENT_SECRET s)"]
  by (auto simp: generate_oauth_tokens_def sent_save_tokens Let_def
        split: prod.splits auth_reply.splits option.splits)

lemma prefix_ensure_valid_token: "prefix (sent s) (sent (snd (ensure_valid_token s)))"
proof -
  define s1 where "s1 = (if \<not> truthy (current_access_token s) then snd (load_tokens s) else s)"
  have a: "sent s1 = sent s" by (simp add: s1_def sent_load_tokens)
  define s2 where "s2 = (if truthy (current_refresh_token s1) \<and> \<not> truthy (current_access_token s1)
             then snd (refresh_access_token s1) else s1)"
  have b: "prefix (sent s) (sent s2)"
    using prefix_refresh_access_token [of s1] a by (simp add: s2_def)
  have c: "prefix (sent s2) (sent (snd (generate_oauth_tokens s2)))"
    by (rule prefix_generate_oauth_tokens)
  have d: "snd (ensure_valid_token s) = s2 \<or> snd (ensure_valid_token s) = snd (generate_oauth_tokens s2)"
    by (auto simp: ensure_valid_token_def s1_def s2_def Let_def split: prod.splits oauth_result.splits)
  from b c d show ?thesis by (auto intro: prefix_order.trans)
qed

lemma prefix_get_auth_headers: "prefix (sent s) (sent (snd (get_auth_headers s)))"
  using prefix_ensure_valid_token [of s] by (simp add: get_auth_headers_def Let_def)

lemma sent_requests_request:
  "sent (snd (requests_request m u h b s)) = sent s @ [ApiCall m u h b]"
  by (simp add: requests_request_def split: list.splits)

lemma prefix_make_authenticated_request:
  "prefix (sent (snd (get_auth_headers s)) @ [ApiCall m u (fst (get_auth_headers s)) b])
          (sent (snd (make_authenticated_request m u b s)))"
proof -
  obtain h s1 where g: "get_auth_headers s = (h, s1)" by (cases "get_auth_headers s")
  obtain r s2 where q: "requests_request m u h b s1 = (r, s2)" by (cases "requests_request m u h b s1")
  have s2: "sent s2 = sent s1 @ [ApiCall m u h b]"
    using sent_requests_request [of m u h b s1] q by simp
  obtain rr s3 where f: "refresh_access_token s2 = (rr, s3)" by (cases "refresh_access_token s2")
  have p3: "prefix (sent s2) (sent s3)" using prefix_refresh_access_token [of s2] f by simp
  obtain h' s4 where g': "get_auth_headers s3 = (h', s4)" by (cases "get_auth_headers s3")
  have p4: "prefix (sent s3) (sent s4)" using prefix_get_auth_headers [of s3] g' by simp
  obtain r' s5 where q': "requests_request m u h' b s4 = (r', s5)" by (cases "requests_request m u h' b s4")
  have p5: "prefix (sent s4) (sent s5)" using prefix_requests_request [of s4 m u h' b] q' by simp
  have p25: "prefix (sent s2) (sent s5)" using p3 p4 p5 by (blast intro: prefix_order.trans)
  have "snd (make_authenticated_request m u b s) \<in> {s2, s3, s5}"
    using g q f g' q'
    by (auto simp: make_authenticated_request_def split: api_reply.splits)
  then show ?thesis using p3 p25 s2 g by auto
qed

text \<open>
  Claim C10. \<open>bulk_create_records\<close> with more than 100 records returns the error dict
  and leaves the whole state, so also the trace of sent requests, as it was: no HTTP
  request is issued. With 100 records or fewer, once the authorization header is built
  the next request sent is the POST of the records to the module's url.
\<close>

theorem bulk_create_records_limit:
  "(length records_data > 100 \<longrightarrow>
      bulk_create_records module_name records_data s =
        (Inr [(''status'', Str ''error''),
              (''message'', Str ''Maximum 100 records allowed per bulk operation'')], s))
   \<and> (length records_data \<le> 100 \<longrightarrow>
      prefix (sent (snd (get_auth_headers s)) @
                [ApiCall ''POST'' (ZOHO_CRM_BASE_URL s @ ''/'' @ module_name)
                   (fst (get_auth_headers s)) (Some records_data)])
             (sent (snd (bulk_create_records module_name records_data s))))"
proof -
  let ?url = "ZOHO_CRM_BASE_URL s @ ''/'' @ module_name"
  have "length records_data \<le> 100 \<Longrightarrow>
          snd (bulk_create_records module_name records_data s) =
          snd (make_authenticated_request ''POST'' ?url (Some records_data) s)"
    by (auto simp: bulk_create_records_def Let_def
          split: prod.splits sum.splits api_reply.splits option.splits)
  then show ?thesis
    using prefix_make_authenticated_request [of s "''POST''" ?url "Some records_data"]
    by (simp add: bulk_create_records_def)
qed

theorem bulk_create_records_limit_witness:
  "length (replicate 101 ([] :: crm_record)) > 100
   \<and> bulk_create_records ''Leads'' (replicate 101 []) server0 =
        (Inr [(''status'', Str ''error''),
              (''message'', Str ''Maximum 100 records allowed per bulk operation'')], server0)
   \<and> length [[(''Last_Name'', ''Doe'')]] \<le> (100 :: nat)
   \<and> prefix (sent (snd (get_auth_headers server0)) @
                [ApiCall ''POST'' (ZOHO_CRM_BASE_URL server0 @ ''/'' @ ''Leads'')
                   (fst (get_auth_headers server0)) (Some [[(''Last_Name'', ''Doe'')]])])
             (sent (snd (bulk_create_records ''Leads'' [[(''Last_Name'', ''Doe'')]] server0)))"
  using bulk_create_records_limit [of "replicate 101 []" "''Leads''" server0]
        bulk_create_records_limit [of "[[(''Last_Name'', ''Doe'')]]" "''Leads''" server0]
  by simp

subsection \<open>Token acquisition that fails\<close>

text \<open>
  Claim C2. When token acquisition fails the caller must get an explicit failure and no
  resource request may carry a null token. The server does otherwise:
  \<open>get_auth_headers\<close> drops the result of \<open>ensure_valid_token\<close>. With no token, no
  token file and a refused client-credentials grant, \<open>ensure_valid_token\<close> returns
  \<open>False\<close>, and \<open>make_authenticated_request\<close> still sends the request, with the header
  \<open>Zoho-oauthtoken None\<close>, and returns the API's response.
\<close>

theorem request_sent_with_None_token:
  "fst (ensure_valid_token server_no_credentials) = False
   \<and> fst (make_authenticated_request ''GET'' ''https://www.zohoapis.com/crm/v2/Leads'' None
           server_no_credentials)
       = Inr (ApiResponse 401 ''INVALID_TOKEN'' None)
   \<and> sent (snd (make_authenticated_request ''GET'' ''https://www.zohoapis.com/crm/v2/Leads'' None
           server_no_credentials))
       = [AuthPost (ClientCredentialsGrant (Some ''id'') (Some ''secret'')),
          ApiCall ''GET'' ''https://www.zohoapis.com/crm/v2/Leads'' ''Zoho-oauthtoken None'' None]"
  by (simp add: server_no_credentials_def server0_def make_authenticated_request_def
        get_auth_headers_def ensure_valid_token_def load_tokens_def refresh_access_token_def
        generate_oauth_tokens_def requests_post_def requests_request_def truthy_def py_str_def
        Let_def)

subsection \<open>Setting a new refresh token\<close>

text \<open>
  Claim C6. \<open>set_refresh_token\<close> must end either with the new refresh token and a
  fresh access token persisted, or with the failure reported and the old access token
  kept. When the authorization endpoint answers 200 with a body that has no
  \<open>access_token\<close>, the server reports success, and the old access token is gone from
  memory and from the token file.
\<close>

theorem set_refresh_token_success_without_token:
  "fst (set_refresh_token ''RT_new'' server_reply_without_token) =
     [(''status'', Str ''success''),
      (''message'', Str ''Refresh token set successfully and access token generated''),
      (''access_token'', Str ''None'')]
   \<and> current_access_token (snd (set_refresh_token ''RT_new'' server_reply_without_token)) = None
   \<and> current_refresh_token (snd (set_refresh_token ''RT_new'' server_reply_without_token))
       = Some ''RT_new''
   \<and> TOKEN_FILE (snd (set_refresh_token ''RT_new'' server_reply_without_token)) =
       Doc \<lparr>fd_access_token = None, fd_refresh_token = Some ''RT_new'',
            fd_created_at = 1700000000, fd_expires_in = 3600\<rparr>"
  by (simp add: server_reply_without_token_def server0_def set_refresh_token_def
        save_tokens_def refresh_access_token_def requests_post_def truthy_def py_str_def Let_def)

subsection \<open>Saving and loading the token file\<close>

text \<open>
  Claim C7, as stated, fails: \<open>save_tokens\<close> keeps the token in memory when the one it
  is given is \<open>None\<close> or empty, so a record without access token saved by a process that
  holds the token \<open>OLD\<close> comes back with \<open>OLD\<close>; and an \<open>expires_in\<close> of 0 is written as
  3600, so the expiry computed on loading is 3300 seconds after \<open>created_at\<close>.
\<close>

theorem save_load_round_trip_counterexample:
  "current_access_token
     (snd (load_tokens (restart (save_tokens None (Some ''RT'') (Some 3600)
        (server0\<lparr>current_access_token := Some ''OLD''\<rparr>))))) = Some ''OLD''
   \<and> cons_token_expires_at (snd (load_tokens_consolidated
        (restart_consolidated
           (save_tokens_consolidated (Some ''AT'') (Some ''RT'') (Some 0) consolidated0))))
       = utc_fromtimestamp (1700000000 + 3300)"
  by (simp add: load_tokens_def restart_def save_tokens_def load_tokens_consolidated_def
        restart_consolidated_def save_tokens_consolidated_def server0_def consolidated0_def
        utc_fromtimestamp_def truthy_def Let_def)

text \<open>
  Claim C7, amended. When the access token and the refresh token saved are non-empty,
  \<open>expires_in\<close> is not 0 and the file can be written, \<open>save_tokens\<close> followed by
  \<open>load_tokens\<close> in a new process gives the same two tokens. In the consolidated
  server, when moreover \<open>datetime.fromtimestamp\<close> accepts
  \<open>created_at + expires_in - 300\<close>, the expiry loaded is that moment, 300 seconds
  before the token's end of life; \<open>load_tokens\<close> of the MCP server computes no expiry.
\<close>

theorem save_load_round_trip:
  "truthy a \<Longrightarrow> truthy r \<Longrightarrow> e \<noteq> 0 \<Longrightarrow>
   (file_writable s \<longrightarrow>
      fst (load_tokens (restart (save_tokens a r (Some e) s)))
      \<and> current_access_token (snd (load_tokens (restart (save_tokens a r (Some e) s)))) = a
      \<and> current_refresh_token (snd (load_tokens (restart (save_tokens a r (Some e) s)))) = r)
   \<and> (cons_file_writable c
       \<and> cons_fromtimestamp c (cons_time c div 1000000 + e - 300) = Some expiry \<longrightarrow>
      fst (load_tokens_consolidated
             (restart_consolidated (save_tokens_consolidated a r (Some e) c)))
      \<and> cons_access_token (snd (load_tokens_consolidated
             (restart_consolidated (save_tokens_consolidated a r (Some e) c)))) = a
      \<and> cons_refresh_token (snd (load_tokens_consolidated
             (restart_consolidated (save_tokens_consolidated a r (Some e) c)))) = r
      \<and> cons_token_expires_at (snd (load_tokens_consolidated
             (restart_consolidated (save_tokens_consolidated a r (Some e) c))))
          = Some expiry)"
  by (simp add: load_tokens_def restart_def save_tokens_def load_tokens_consolidated_def
        restart_consolidated_def save_tokens_consolidated_def Let_def)

theorem save_load_round_trip_witness:
  "truthy (Some ''AT'') \<and> truthy (Some ''RT'') \<and> (3600 :: int) \<noteq> 0
   \<and> file_writable server0 \<and> cons_file_writable consolidated0
   \<and> cons_fromtimestamp consolidated0 (cons_time consolidated0 div 1000000 + 3600 - 300)
       = Some 63835600100000000
   \<and> current_access_token
        (snd (load_tokens (restart (save_tokens (Some ''AT'') (Some ''RT'') (Some 3600) server0))))
       = Some ''AT''
   \<and> cons_token_expires_at (snd (load_tokens_consolidated
        (restart_consolidated
           (save_tokens_consolidated (Some ''AT'') (Some ''RT'') (Some 3600) consolidated0))))
       = Some 63835600100000000"
proof -
  have h: "truthy (Some ''AT'')" "truthy (Some ''RT'')" "(3600 :: int) \<noteq> 0"
    by (simp_all add: truthy_def)
  have w: "file_writable server0" "cons_file_writable consolidated0"
          "cons_fromtimestamp consolidated0 (cons_time consolidated0 div 1000000 + 3600 - 300)
             = Some 63835600100000000"
    by (simp_all add: server0_def consolidated0_def utc_fromtimestamp_def)
  show ?thesis
    using save_load_round_trip [OF h, of server0 consolidated0 63835600100000000] h w by simp
qed

text \<open>
  Where \<open>datetime.fromtimestamp\<close> raises, here for a file whose \<open>expires_in\<close> is
  1000000000000, the two tokens of the file have been assigned, the refresh token from
  the environment then replaces the one from the file, and no expiry is set.
\<close>

lemma load_tokens_consolidated_out_of_range:
  "load_tokens_consolidated
     (restart_consolidated
        (save_tokens_consolidated (Some ''AT'') (Some ''RT'') (Some 1000000000000)
           (consolidated0\<lparr>config_refresh_token := Some ''ENV_RT''\<rparr>))) =
   (True,
    restart_consolidated
        (save_tokens_consolidated (Some ''AT'') (Some ''RT'') (Some 1000000000000)
           (consolidated0\<lparr>config_refresh_token := Some ''ENV_RT''\<rparr>))
      \<lparr>cons_access_token := Some ''AT'', cons_refresh_token := Some ''ENV_RT''\<rparr>)"
  by (simp add: load_tokens_consolidated_def load_tokens_fallback_def restart_consolidated_def
        save_tokens_consolidated_def consolidated0_def utc_fromtimestamp_def truthy_def Let_def)

section \<open>Properties of the circuit breaker\<close>

text \<open>
  Claim C9, as stated, fails: with the default threshold 5 and timeout 60, a circuit
  opened at time 0 lets the call at 61 seconds through, and when that call fails the
  circuit is not open again: the count of failures is 1.
\<close>

theorem failed_trial_leaves_circuit_closed:
  "sync_wrapper 5 60 (\<lambda>w. w) always_fails
     \<lparr>failures = 5, last_failure = Some 0, is_open = True\<rparr> 61000000
   = (Inl (FuncRaised ''service down''),
      \<lparr>failures = 1, last_failure = Some 61000000, is_open = False\<rparr>, 61000000)"
  by (simp add: sync_wrapper_def call_wrapped_def always_fails_def timedelta_seconds_def Let_def)

lemma timedelta_seconds_within_a_day:
  assumes "0 \<le> d" and "d < 86400000000"
  shows "timedelta_seconds d = d div 1000000"
  using assms by (simp add: timedelta_seconds_def)

text \<open>
  Claim C9, amended. Let the circuit be open and let the time since the last failure
  be at least the recovery timeout and less than one day. Then the next call closes the
  circuit, sets the count of failures to zero and runs the function. If the function
  returns, the count stays zero and the circuit closed. If it raises, the count is 1,
  the time of the last failure is the time of this one, and the circuit is open again
  only when the threshold is 1 or less.
\<close>

theorem circuit_trial_after_timeout:
  assumes "is_open state"
      and "last_failure state = Some lf"
      and "recovery_timeout * 1000000 \<le> now w - lf"
      and "0 \<le> now w - lf"
      and "now w - lf < 86400000000"
  shows "(case func w of
            (Inr result, w1) \<Rightarrow>
              sync_wrapper failure_threshold recovery_timeout now func state w =
                (Inr result, state\<lparr>is_open := False, failures := 0\<rparr>, w1)
          | (Inl e, w1) \<Rightarrow>
              sync_wrapper failure_threshold recovery_timeout now func state w =
                (Inl e,
                 state\<lparr>is_open := (failure_threshold \<le> 1), failures := 1,
                       last_failure := Some (now w1)\<rparr>, w1))"
proof -
  have "recovery_timeout \<le> (now w - lf) div 1000000"
    using assms(3) by (simp add: zdiv_mono1 [of "recovery_timeout * 1000000" "now w - lf" 1000000, simplified])
  then have open_check: "\<not> timedelta_seconds (now w - lf) < recovery_timeout"
    using timedelta_seconds_within_a_day [OF assms(4,5)] by simp
  show ?thesis
    using assms(1,2) open_check
    by (auto simp: sync_wrapper_def call_wrapped_def Let_def split: prod.splits sum.splits)
qed

theorem circuit_trial_after_timeout_witness:
  "is_open \<lparr>failures = 5, last_failure = Some 0, is_open = True\<rparr>
   \<and> (60 :: int) * 1000000 \<le> 61000000 - 0
   \<and> (61000000 :: int) - 0 < 86400000000
   \<and> sync_wrapper 5 60 (\<lambda>w. w) always_succeeds
        \<lparr>failures = 5, last_failure = Some 0, is_open = True\<rparr> 61000000
       = (Inr (), \<lparr>failures = 0, last_failure = Some 0, is_open = False\<rparr>, 61000000)
   \<and> sync_wrapper 1 60 (\<lambda>w. w) always_fails
        \<lparr>failures = 5, last_failure = Some 0, is_open = True\<rparr> 61000000
       = (Inl (FuncRaised ''service down''),
          \<lparr>failures = 1, last_failure = Some 61000000, is_open = True\<rparr>, 61000000)"
  using circuit_trial_after_timeout
          [where state = "\<lparr>failures = 5, last_failure = Some 0, is_open = True\<rparr>"
             and lf = 0 and recovery_timeout = 60 and now = "\<lambda>w. w" and w = 61000000
             and func = always_succeeds and failure_threshold = 5]
        circuit_trial_after_timeout
          [where state = "\<lparr>failures = 5, last_failure = Some 0, is_open = True\<rparr>"
             and lf = 0 and recovery_timeout = 60 and now = "\<lambda>w. w" and w = 61000000
             and func = always_fails and failure_threshold = 1]
  by (simp add: always_succeeds_def always_fails_def)

section \<open>Properties of the request executors\<close>

subsection \<open>The retry loop, one turn at a time\<close>

lemma events_session_request:
  "zc_events (snd (session_request m u h b c)) = zc_events c @ [ApiCall m u h b]"
  by (simp add: session_request_def split: list.splits)

lemma events_asyncio_sleep: "zc_events (asyncio_sleep d c) = zc_events c @ [Sleep d]"
  by (simp add: asyncio_sleep_def)

lemma events_ZohoClient_refresh_access_token:
  "zc_events (snd (ZohoClient_refresh_access_token c)) =
     zc_events c @ [AuthPost (RefreshGrant (refresh_token c) (client_id c) (client_secret c))]"
  by (simp add: ZohoClient_refresh_access_token_def token_response_def datetime_ok_def timedelta_ok_def session_post_def post_sent_def response_arrives_def Let_def
        split: list.splits auth_reply.splits option.splits)

text \<open>One turn of the loop: the request is sent, then events that are no API calls
  follow, and the loop either ends or goes on with the attempts left.\<close>

lemma request_attempts_step:
  "\<exists>c' tail.
     zc_events c' = zc_events c @ ApiCall m u h b # tail
     \<and> (\<forall>e \<in> set tail. \<not> is_api_call e)
     \<and> ((\<exists>res. request_attempts (a # atts) m u b h c = (res, c'))
        \<or> (\<exists>h'. request_attempts (a # atts) m u b h c = request_attempts atts m u b h' c'))"
proof -
  obtain r c1 where q: "session_request m u h b c = (r, c1)"
    by (cases "session_request m u h b c")
  have e1: "zc_events c1 = zc_events c @ [ApiCall m u h b]"
    using events_session_request [of m u h b c] q by simp
  let ?d = "2 ^ a * 1000000 :: int"
  have raise: "\<exists>c' tail.
     zc_events c' = zc_events c @ ApiCall m u h b # tail
     \<and> (\<forall>e \<in> set tail. \<not> is_api_call e)
     \<and> ((\<exists>res. request_attempts (a # atts) m u b h c = (res, c'))
        \<or> (\<exists>h'. request_attempts (a # atts) m u b h c = request_attempts atts m u b h' c'))"
    if ev: "zc_events x = zc_events c @ ApiCall m u h b # tl0"
      and tl: "\<forall>e \<in> set tl0. \<not> is_api_call e"
      and eq: "request_attempts (a # atts) m u b h c =
                 (if a = 2 then (Inl ex, x)
                  else request_attempts atts m u b h (asyncio_sleep ?d x))"
    for x tl0 ex
  proof (cases "a = 2")
    case True
    then show ?thesis using ev tl eq by auto
  next
    case False
    have "zc_events (asyncio_sleep ?d x) = zc_events c @ ApiCall m u h b # (tl0 @ [Sleep ?d])"
      using ev by (simp add: events_asyncio_sleep)
    moreover have "\<forall>e \<in> set (tl0 @ [Sleep ?d]). \<not> is_api_call e" using tl by simp
    moreover have "request_attempts (a # atts) m u b h c =
                     request_attempts atts m u b h (asyncio_sleep ?d x)"
      using eq False by simp
    ultimately show ?thesis by blast
  qed
  show ?thesis
  proof (cases r)
    case (ApiRaises e)
    have "request_attempts (a # atts) m u b h c =
            (if a = 2 then (Inl (ClientError e), c1)
             else request_attempts atts m u b h (asyncio_sleep ?d c1))"
      using q ApiRaises by simp
    then show ?thesis using raise [of c1 "[]"] e1 by simp
  next
    case (ApiResponse status tx js)
    show ?thesis
    proof (cases "status = 401")
      case True
      obtain rr c2 where f: "ZohoClient_refresh_access_token c1 = (rr, c2)"
        by (cases "ZohoClient_refresh_access_token c1")
      let ?g = "AuthPost (RefreshGrant (refresh_token c1) (client_id c1) (client_secret c1))"
      have e2: "zc_events c2 = zc_events c @ ApiCall m u h b # [?g]"
        using events_ZohoClient_refresh_access_token [of c1] f e1 by simp
      have t2: "\<forall>e \<in> set [?g]. \<not> is_api_call e" by simp
      show ?thesis
      proof (cases rr)
        case (Inl ex)
        have "request_attempts (a # atts) m u b h c =
                (if a = 2 then (Inl ex, c2)
                 else request_attempts atts m u b h (asyncio_sleep ?d c2))"
          using q ApiResponse True f Inl by simp
        then show ?thesis using raise [OF e2 t2] by simp
      next
        case (Inr v)
        have "request_attempts (a # atts) m u b h c =
                request_attempts atts m u b (''Zoho-oauthtoken '' @ py_str (access_token c2)) c2"
          using q ApiResponse True f Inr by simp
        then show ?thesis using e2 t2 by blast
      qed
    next
      case False
      show ?thesis
      proof (cases "status \<ge> 400")
        case True
        have "request_attempts (a # atts) m u b h c =
                (if a = 2 then (Inl (ApiError status tx), c1)
                 else request_attempts atts m u b h (asyncio_sleep ?d c1))"
          using q ApiResponse False True by simp
        then show ?thesis using raise [of c1 "[]"] e1 by simp
      next
        case F2: False
        have "\<exists>res. request_attempts (a # atts) m u b h c = (res, c1)"
          using q ApiResponse False F2 by simp
        moreover have "zc_events c1 = zc_events c @ ApiCall m u h b # []" using e1 by simp
        moreover have "\<forall>e \<in> set []. \<not> is_api_call e" by simp
        ultimately show ?thesis by blast
      qed
    qed
  qed
qed

lemma prefix_request_attempts:
  "prefix (zc_events c) (zc_events (snd (request_attempts atts m u b h c)))"
proof (induction atts arbitrary: c h)
  case Nil
  then show ?case by simp
next
  case (Cons a atts)
  obtain c' tail where
    ev: "zc_events c' = zc_events c @ ApiCall m u h b # tail" and
    alt: "(\<exists>res. request_attempts (a # atts) m u b h c = (res, c'))
        \<or> (\<exists>h'. request_attempts (a # atts) m u b h c = request_attempts atts m u b h' c')"
    using request_attempts_step [of c m u h b a atts] by blast
  have p: "prefix (zc_events c) (zc_events c')" using ev by simp
  from alt show ?case
  proof
    assume "\<exists>res. request_attempts (a # atts) m u b h c = (res, c')"
    then show ?thesis using p by auto
  next
    assume "\<exists>h'. request_attempts (a # atts) m u b h c = request_attempts atts m u b h' c'"
    then obtain h' where "request_attempts (a # atts) m u b h c = request_attempts atts m u b h' c'"
      by blast
    then show ?thesis using Cons.IH [where c = c' and h = h'] p by (auto intro: prefix_order.trans)
  qed
qed

lemma prefix_request_attempts_first:
  "prefix (zc_events c @ [ApiCall m u h b])
          (zc_events (snd (request_attempts (a # atts) m u b h c)))"
proof -
  obtain c' tail where
    ev: "zc_events c' = zc_events c @ ApiCall m u h b # tail" and
    alt: "(\<exists>res. request_attempts (a # atts) m u b h c = (res, c'))
        \<or> (\<exists>h'. request_attempts (a # atts) m u b h c = request_attempts atts m u b h' c')"
    using request_attempts_step [of c m u h b a atts] by blast
  have p: "prefix (zc_events c @ [ApiCall m u h b]) (zc_events c')" using ev by simp
  from alt show ?thesis
  proof
    assume "\<exists>res. request_attempts (a # atts) m u b h c = (res, c')"
    then show ?thesis using p by auto
  next
    assume "\<exists>h'. request_attempts (a # atts) m u b h c = request_attempts atts m u b h' c'"
    then obtain h' where "request_attempts (a # atts) m u b h c = request_attempts atts m u b h' c'"
      by blast
    then show ?thesis using prefix_request_attempts [where c = c' and atts = atts and h = h'] p
      by (auto intro: prefix_order.trans)
  qed
qed

lemma api_calls_request_attempts:
  "length (filter is_api_call (zc_events (snd (request_attempts atts m u b h c))))
     \<le> length (filter is_api_call (zc_events c)) + length atts"
proof (induction atts arbitrary: c h)
  case Nil
  then show ?case by simp
next
  case (Cons a atts)
  obtain c' tail where
    ev: "zc_events c' = zc_events c @ ApiCall m u h b # tail" and
    tl: "\<forall>e \<in> set tail. \<not> is_api_call e" and
    alt: "(\<exists>res. request_attempts (a # atts) m u b h c = (res, c'))
        \<or> (\<exists>h'. request_attempts (a # atts) m u b h c = request_attempts atts m u b h' c')"
    using request_attempts_step [of c m u h b a atts] by blast
  have "filter is_api_call tail = []" using tl by (simp add: filter_empty_conv)
  then have n: "length (filter is_api_call (zc_events c')) =
             length (filter is_api_call (zc_events c)) + 1"
    using ev by simp
  from alt show ?case
  proof
    assume "\<exists>res. request_attempts (a # atts) m u b h c = (res, c')"
    then show ?thesis using n by auto
  next
    assume "\<exists>h'. request_attempts (a # atts) m u b h c = request_attempts atts m u b h' c'"
    then obtain h' where "request_attempts (a # atts) m u b h c = request_attempts atts m u b h' c'"
      by blast
    then show ?thesis using Cons.IH [where c = c' and h = h'] n by simp
  qed
qed

subsection \<open>Responses of the 4xx class\<close>

text \<open>
  Claim C4, as stated, fails: the client answers a 404 by sleeping one second and
  sending the request again, and when the second response is a 200 the caller gets its
  body and never learns of the 404.
\<close>

theorem client_error_swallowed_by_retry:
  "ZohoClient_make_request ''GET'' ''https://www.zohoapis.com/crm/v3/Leads/1'' None
     client_404_then_200 =
   (Inr (ReturnedJson []),
    client_404_then_200\<lparr>zc_api_replies := [], utcnow := 1001000000,
      request_timestamps := [1000000000],
      zc_events :=
        [ApiCall ''GET'' ''https://www.zohoapis.com/crm/v3/Leads/1'' ''Zoho-oauthtoken AT'' None,
         Sleep 1000000,
         ApiCall ''GET'' ''https://www.zohoapis.com/crm/v3/Leads/1'' ''Zoho-oauthtoken AT'' None]\<rparr>)"
  by (simp add: client_404_then_200_def client0_def ZohoClient_make_request_def
        ZohoClient_ensure_valid_token_def needs_refresh_def ZohoClient_rate_limit_check_def session_request_def
        asyncio_sleep_def py_str_def Let_def)

lemma client_error_retried:
  assumes "zc_api_replies c2 = ApiResponse st1 t1 j1 # rest1" and "client_error st1"
  shows "prefix (zc_events c2 @ [ApiCall m u h b, Sleep 1000000, ApiCall m u h b])
                (zc_events (snd (request_attempts [0, 1, 2] m u b h c2)))"
proof -
  let ?c = "asyncio_sleep 1000000 (c2\<lparr>zc_api_replies := rest1,
               zc_events := zc_events c2 @ [ApiCall m u h b]\<rparr>)"
  have "request_attempts [0, 1, 2] m u b h c2 = request_attempts [1, 2] m u b h ?c"
    using assms by (simp add: session_request_def client_error_def)
  moreover have "zc_events ?c = zc_events c2 @ [ApiCall m u h b, Sleep 1000000]"
    by (simp add: asyncio_sleep_def)
  ultimately show ?thesis
    using prefix_request_attempts_first [of ?c m u h b 1 "[2]"] by simp
qed

lemma client_error_raised_after_three:
  assumes "zc_api_replies c2 =
             ApiResponse st1 t1 j1 # ApiResponse st2 t2 j2 # ApiResponse st3 t3 j3 # rest"
      and "client_error st1" and "client_error st2" and "client_error st3"
  shows "request_attempts [0, 1, 2] m u b h c2 =
           (Inl (ApiError st3 t3),
            c2\<lparr>zc_api_replies := rest, utcnow := utcnow c2 + 3000000,
               zc_events := zc_events c2 @
                 [ApiCall m u h b, Sleep 1000000, ApiCall m u h b, Sleep 2000000,
                  ApiCall m u h b]\<rparr>)"
  using assms by (simp add: session_request_def client_error_def asyncio_sleep_def)

lemma legacy_error_raised_at_once:
  assumes "get_valid_token_legacy s = (Inr token, s1)"
      and "leg_api_replies s1 = ApiResponse st tx js # rest"
      and "client_error st"
      and "py_upper verb = ''GET'' \<or> py_upper verb = ''POST'' \<or> py_upper verb = ''PUT''"
  shows "make_zoho_request_legacy verb endpoint data s =
           (Inl (HTTPException 500 (''Zoho API error: '' @ str_int st @ '' - '' @ take 200 tx)),
            s1\<lparr>leg_api_replies := rest,
               leg_sent := leg_sent s1 @
                 [ApiCall (py_upper verb) (leg_base_url s1 @ endpoint)
                    (''Zoho-oauthtoken '' @ token)
                    (if py_upper verb = ''GET'' then None else data)]\<rparr>)"
proof -
  have "st \<noteq> 200 \<and> st \<noteq> 201" using assms(3) by (simp add: client_error_def)
  then show ?thesis
    using assms(1,2,4)
    by (simp add: make_zoho_request_legacy_def legacy_request_def Let_def)
qed

text \<open>
  Claim C4, amended. In \<open>ZohoClient._make_request\<close>, once the token and the rate limit
  are passed, a first response of the 4xx class other than 401 is followed by a sleep
  of one second and a second send of the same request; when the second and the third
  response are of that class too, the third send follows a sleep of two seconds and the
  call raises the API error with the status and the body of the third response. In the
  legacy \<open>make_zoho_request\<close>, such a response to the one request sent is raised at
  once as \<open>HTTPException\<close> with status 500 and a detail made of the status and the
  first 200 characters of the body.
\<close>

theorem client_error_handling:
  "(ZohoClient_ensure_valid_token c = (Inr (), c1)
      \<and> ZohoClient_rate_limit_check c1 = (Inr (), c2)
      \<and> zc_api_replies c2 = ApiResponse st1 t1 j1 # rest1 \<and> client_error st1
    \<longrightarrow> prefix (zc_events c2 @
                  [ApiCall m u (''Zoho-oauthtoken '' @ py_str (access_token c2)) b,
                   Sleep 1000000,
                   ApiCall m u (''Zoho-oauthtoken '' @ py_str (access_token c2)) b])
               (zc_events (snd (ZohoClient_make_request m u b c)))
        \<and> (rest1 = ApiResponse st2 t2 j2 # ApiResponse st3 t3 j3 # rest
             \<and> client_error st2 \<and> client_error st3
           \<longrightarrow> ZohoClient_make_request m u b c =
                 (Inl (ApiError st3 t3),
                  c2\<lparr>zc_api_replies := rest, utcnow := utcnow c2 + 3000000,
                     zc_events := zc_events c2 @
                       [ApiCall m u (''Zoho-oauthtoken '' @ py_str (access_token c2)) b,
                        Sleep 1000000,
                        ApiCall m u (''Zoho-oauthtoken '' @ py_str (access_token c2)) b,
                        Sleep 2000000,
                        ApiCall m u (''Zoho-oauthtoken '' @ py_str (access_token c2)) b]\<rparr>)))
   \<and> (get_valid_token_legacy s = (Inr token, s1)
      \<and> leg_api_replies s1 = ApiResponse st tx js # lrest \<and> client_error st
      \<and> (py_upper verb = ''GET'' \<or> py_upper verb = ''POST'' \<or> py_upper verb = ''PUT'')
    \<longrightarrow> make_zoho_request_legacy verb endpoint data s =
          (Inl (HTTPException 500 (''Zoho API error: '' @ str_int st @ '' - '' @ take 200 tx)),
           s1\<lparr>leg_api_replies := lrest,
              leg_sent := leg_sent s1 @
                [ApiCall (py_upper verb) (leg_base_url s1 @ endpoint)
                   (''Zoho-oauthtoken '' @ token)
                   (if py_upper verb = ''GET'' then None else data)]\<rparr>))"
proof (intro conjI impI)
  assume a: "ZohoClient_ensure_valid_token c = (Inr (), c1)
      \<and> ZohoClient_rate_limit_check c1 = (Inr (), c2)
      \<and> zc_api_replies c2 = ApiResponse st1 t1 j1 # rest1 \<and> client_error st1"
  then have run: "ZohoClient_make_request m u b c =
      request_attempts [0, 1, 2] m u b (''Zoho-oauthtoken '' @ py_str (access_token c2)) c2"
    by (simp add: ZohoClient_make_request_def)
  show "prefix (zc_events c2 @
                  [ApiCall m u (''Zoho-oauthtoken '' @ py_str (access_token c2)) b,
                   Sleep 1000000,
                   ApiCall m u (''Zoho-oauthtoken '' @ py_str (access_token c2)) b])
               (zc_events (snd (ZohoClient_make_request m u b c)))"
    using client_error_retried [of c2 st1 t1 j1 rest1] a run by simp
  assume b: "rest1 = ApiResponse st2 t2 j2 # ApiResponse st3 t3 j3 # rest
             \<and> client_error st2 \<and> client_error st3"
  show "ZohoClient_make_request m u b c =
                 (Inl (ApiError st3 t3),
                  c2\<lparr>zc_api_replies := rest, utcnow := utcnow c2 + 3000000,
                     zc_events := zc_events c2 @
                       [ApiCall m u (''Zoho-oauthtoken '' @ py_str (access_token c2)) b,
                        Sleep 1000000,
                        ApiCall m u (''Zoho-oauthtoken '' @ py_str (access_token c2)) b,
                        Sleep 2000000,
                        ApiCall m u (''Zoho-oauthtoken '' @ py_str (access_token c2)) b]\<rparr>)"
    using client_error_raised_after_three [of c2 st1 t1 j1 st2 t2 j2 st3 t3 j3 rest] a b run
    by simp
next
  assume "get_valid_token_legacy s = (Inr token, s1)
      \<and> leg_api_replies s1 = ApiResponse st tx js # lrest \<and> client_error st
      \<and> (py_upper verb = ''GET'' \<or> py_upper verb = ''POST'' \<or> py_upper verb = ''PUT'')"
  then show "make_zoho_request_legacy verb endpoint data s =
          (Inl (HTTPException 500 (''Zoho API error: '' @ str_int st @ '' - '' @ take 200 tx)),
           s1\<lparr>leg_api_replies := lrest,
              leg_sent := leg_sent s1 @
                [ApiCall (py_upper verb) (leg_base_url s1 @ endpoint)
                   (''Zoho-oauthtoken '' @ token)
                   (if py_upper verb = ''GET'' then None else data)]\<rparr>)"
    using legacy_error_raised_at_once [of s token s1 st tx js lrest verb] by simp
qed

theorem client_error_handling_witness:
  "client_error 404
   \<and> ZohoClient_make_request ''GET'' ''https://www.zohoapis.com/crm/v3/Leads/1'' None
        client_404_thrice =
       (Inl (ApiError 404 ''c''),
        client_404_thrice\<lparr>zc_api_replies := [], utcnow := 1003000000,
          request_timestamps := [1000000000],
          zc_events :=
            [ApiCall ''GET'' ''https://www.zohoapis.com/crm/v3/Leads/1'' ''Zoho-oauthtoken AT'' None,
             Sleep 1000000,
             ApiCall ''GET'' ''https://www.zohoapis.com/crm/v3/Leads/1'' ''Zoho-oauthtoken AT'' None,
             Sleep 2000000,
             ApiCall ''GET'' ''https://www.zohoapis.com/crm/v3/Leads/1'' ''Zoho-oauthtoken AT'' None]\<rparr>)
   \<and> make_zoho_request_legacy ''get'' ''/Leads/1'' None legacy_404 =
       (Inl (HTTPException 500 (''Zoho API error: '' @ str_int 404 @ '' - not found'')),
        legacy_404\<lparr>leg_api_replies := [],
          leg_sent := [ApiCall ''GET'' ''https://www.zohoapis.com/crm/v2/Leads/1''
                         ''Zoho-oauthtoken AT'' None]\<rparr>)"
proof -
  have e: "client_error 404" by (simp add: client_error_def)
  have a: "ZohoClient_ensure_valid_token client_404_thrice = (Inr (), client_404_thrice)"
    by (simp add: ZohoClient_ensure_valid_token_def needs_refresh_def client_404_thrice_def client0_def)
  have b: "ZohoClient_rate_limit_check client_404_thrice =
             (Inr (), client_404_thrice\<lparr>request_timestamps := [1000000000]\<rparr>)"
    by (simp add: ZohoClient_rate_limit_check_def client_404_thrice_def client0_def Let_def)
  have r: "zc_api_replies (client_404_thrice\<lparr>request_timestamps := [1000000000]\<rparr>) =
             ApiResponse 404 ''a'' None # [ApiResponse 404 ''b'' None, ApiResponse 404 ''c'' None]"
    by (simp add: client_404_thrice_def client0_def)
  have t: "get_valid_token_legacy legacy_404 = (Inr ''AT'', legacy_404)"
    by (simp add: get_valid_token_legacy_def legacy_404_def legacy0_def truthy_def py_str_def)
  have l: "leg_api_replies legacy_404 = ApiResponse 404 ''not found'' None # []"
    by (simp add: legacy_404_def legacy0_def)
  have u: "py_upper ''get'' = ''GET''" by code_simp
  have v: "access_token (client_404_thrice\<lparr>request_timestamps := [1000000000]\<rparr>) = Some ''AT''"
       "utcnow (client_404_thrice\<lparr>request_timestamps := [1000000000]\<rparr>) = 1000000000"
       "zc_events (client_404_thrice\<lparr>request_timestamps := [1000000000]\<rparr>) = []"
       "leg_base_url legacy_404 = ''https://www.zohoapis.com/crm/v2''"
       "leg_sent legacy_404 = []"
    by (simp_all add: client_404_thrice_def client0_def legacy_404_def legacy0_def)
  show ?thesis
    using e a b r t l u v
      client_error_handling
        [where c = client_404_thrice and ?c1.0 = client_404_thrice
           and ?c2.0 = "client_404_thrice\<lparr>request_timestamps := [1000000000]\<rparr>"
           and ?st1.0 = 404 and ?t1.0 = "''a''" and ?j1.0 = None
           and ?rest1.0 = "[ApiResponse 404 ''b'' None, ApiResponse 404 ''c'' None]"
           and ?st2.0 = 404 and ?t2.0 = "''b''" and ?j2.0 = None
           and ?st3.0 = 404 and ?t3.0 = "''c''" and ?j3.0 = None and rest = "[]"
           and m = "''GET''" and u = "''https://www.zohoapis.com/crm/v3/Leads/1''" and b = None
           and s = legacy_404 and token = "''AT''" and ?s1.0 = legacy_404 and st = 404
           and tx = "''not found''" and js = None and lrest = "[]" and verb = "''get''"
           and endpoint = "''/Leads/1''" and data = None]
    by (simp add: py_str_def)
qed

subsection \<open>Responses with status 401\<close>

text \<open>
  Token operations of the MCP server leave the resource API's side of the state alone.
\<close>

lemma api_side_save_tokens: "api_side (save_tokens a r e s) = api_side s"
  by (simp add: api_side_def save_tokens_def Let_def)

lemma api_side_load_tokens: "api_side (snd (load_tokens s)) = api_side s"
  by (simp add: api_side_def load_tokens_def Let_def split: token_file.splits)

lemma api_side_requests_post: "api_side (snd (requests_post g s)) = api_side s"
  by (simp add: api_side_def requests_post_def split: list.splits)

lemma api_side_refresh_access_token: "api_side (snd (refresh_access_token s)) = api_side s"
proof -
  let ?g = "RefreshGrant (current_refresh_token s) (ZOHO_CLIENT_ID s) (ZOHO_CLIENT_SECRET s)"
  obtain r s1 where p: "requests_post ?g s = (r, s1)" by (cases "requests_post ?g s")
  have a: "api_side s1 = api_side s" using api_side_requests_post [of ?g s] p by simp
  have b: "\<And>x y z. api_side (save_tokens x y z (s1\<lparr>current_access_token := x\<rparr>)) = api_side s"
    using a by (simp add: api_side_save_tokens) (simp add: api_side_def)
  show ?thesis
    using p a b
    by (auto simp: refresh_access_token_def Let_def split: auth_reply.splits option.splits)
qed

lemma api_side_generate_oauth_tokens: "api_side (snd (generate_oauth_tokens s)) = api_side s"
proof -
  let ?g = "ClientCredentialsGrant (ZOHO_CLIENT_ID s) (ZOHO_CLIENT_SECRET s)"
  obtain r s1 where p: "requests_post ?g s = (r, s1)" by (cases "requests_post ?g s")
  have a: "api_side s1 = api_side s" using api_side_requests_post [of ?g s] p by simp
  show ?thesis
    using p a
    by (auto simp: generate_oauth_tokens_def api_side_save_tokens Let_def
          split: auth_reply.splits option.splits)
qed

lemma api_side_ensure_valid_token: "api_side (snd (ensure_valid_token s)) = api_side s"
proof -
  define s1 where "s1 = (if \<not> truthy (current_access_token s) then snd (load_tokens s) else s)"
  have a: "api_side s1 = api_side s" by (simp add: s1_def api_side_load_tokens)
  define s2 where "s2 = (if truthy (current_refresh_token s1) \<and> \<not> truthy (current_access_token s1)
             then snd (refresh_access_token s1) else s1)"
  have b: "api_side s2 = api_side s"
    using a by (simp add: s2_def api_side_refresh_access_token)
  have c: "api_side (snd (generate_oauth_tokens s2)) = api_side s"
    using b by (simp add: api_side_generate_oauth_tokens)
  have d: "snd (ensure_valid_token s) = s2 \<or> snd (ensure_valid_token s) = snd (generate_oauth_tokens s2)"
    by (auto simp: ensure_valid_token_def s1_def s2_def Let_def split: prod.splits oauth_result.splits)
  from b c d show ?thesis by auto
qed

lemma api_side_get_auth_headers: "api_side (snd (get_auth_headers s)) = api_side s"
  by (simp add: get_auth_headers_def Let_def api_side_ensure_valid_token)

lemma api_side_requests_request:
  assumes "api_replies s = r # rs"
  shows "requests_request m u h b s = (r, s\<lparr>api_replies := rs, sent := sent s @ [ApiCall m u h b]\<rparr>)"
    and "api_side (snd (requests_request m u h b s)) = (rs, snd (api_side s) @ [ApiCall m u h b])"
  using assms by (simp_all add: requests_request_def api_side_def)

lemma unauthorized_refresh_fails:
  assumes "get_auth_headers s = (h, s1)"
      and "api_replies s1 = ApiResponse 401 tx js # rest"
      and "\<not> is_success (fst (refresh_access_token
               (s1\<lparr>api_replies := rest, sent := sent s1 @ [ApiCall m u h b]\<rparr>)))"
  shows "fst (make_authenticated_request m u b s) = Inr (ApiResponse 401 tx js)
         \<and> api_side (snd (make_authenticated_request m u b s)) =
             (rest, snd (api_side s) @ [ApiCall m u h b])"
proof -
  let ?s2 = "s1\<lparr>api_replies := rest, sent := sent s1 @ [ApiCall m u h b]\<rparr>"
  have q: "requests_request m u h b s1 = (ApiResponse 401 tx js, ?s2)"
    using api_side_requests_request(1) [OF assms(2)] by simp
  obtain rr s3 where f: "refresh_access_token ?s2 = (rr, s3)"
    by (cases "refresh_access_token ?s2")
  have run: "make_authenticated_request m u b s = (Inr (ApiResponse 401 tx js), s3)"
    using assms(1,3) q f by (simp add: make_authenticated_request_def)
  have "api_side s1 = api_side s" using api_side_get_auth_headers [of s] assms(1) by simp
  then have "api_side ?s2 = (rest, snd (api_side s) @ [ApiCall m u h b])"
    by (simp add: api_side_def)
  then have "api_side s3 = (rest, snd (api_side s) @ [ApiCall m u h b])"
    using api_side_refresh_access_token [of ?s2] f by simp
  then show ?thesis using run by simp
qed

lemma unauthorized_refresh_succeeds:
  assumes "get_auth_headers s = (h, s1)"
      and "api_replies s1 = ApiResponse 401 tx js # reply # rest"
      and "is_success (fst (refresh_access_token
               (s1\<lparr>api_replies := reply # rest, sent := sent s1 @ [ApiCall m u h b]\<rparr>)))"
      and "h' = fst (get_auth_headers (snd (refresh_access_token
               (s1\<lparr>api_replies := reply # rest, sent := sent s1 @ [ApiCall m u h b]\<rparr>))))"
  shows "fst (make_authenticated_request m u b s) =
           (case reply of ApiRaises e \<Rightarrow> Inl (RequestException e) | _ \<Rightarrow> Inr reply)
         \<and> api_side (snd (make_authenticated_request m u b s)) =
             (rest, snd (api_side s) @ [ApiCall m u h b, ApiCall m u h' b])"
proof -
  let ?s2 = "s1\<lparr>api_replies := reply # rest, sent := sent s1 @ [ApiCall m u h b]\<rparr>"
  have q: "requests_request m u h b s1 = (ApiResponse 401 tx js, ?s2)"
    using api_side_requests_request(1) [OF assms(2)] by simp
  obtain rr s3 where f: "refresh_access_token ?s2 = (rr, s3)"
    by (cases "refresh_access_token ?s2")
  obtain hh s4 where g: "get_auth_headers s3 = (hh, s4)" by (cases "get_auth_headers s3")
  have hh: "hh = h'" using assms(4) f g by simp
  have "api_side s1 = api_side s" using api_side_get_auth_headers [of s] assms(1) by simp
  then have "api_side ?s2 = (reply # rest, snd (api_side s) @ [ApiCall m u h b])"
    by (simp add: api_side_def)
  then have "api_side s3 = (reply # rest, snd (api_side s) @ [ApiCall m u h b])"
    using api_side_refresh_access_token [of ?s2] f by simp
  then have a4: "api_side s4 = (reply # rest, snd (api_side s) @ [ApiCall m u h b])"
    using api_side_get_auth_headers [of s3] g by simp
  then have r4: "api_replies s4 = reply # rest" by (simp add: api_side_def)
  let ?s5 = "s4\<lparr>api_replies := rest, sent := sent s4 @ [ApiCall m u h' b]\<rparr>"
  have q': "requests_request m u h' b s4 = (reply, ?s5)"
    using api_side_requests_request(1) [OF r4] by simp
  have a5: "api_side ?s5 = (rest, snd (api_side s) @ [ApiCall m u h b, ApiCall m u h' b])"
    using a4 by (simp add: api_side_def)
  have run: "make_authenticated_request m u b s =
               ((case reply of ApiRaises e \<Rightarrow> Inl (RequestException e) | _ \<Rightarrow> Inr reply), ?s5)"
    using assms(1,3) q f g hh q'
    by (simp add: make_authenticated_request_def split: api_reply.splits)
  show ?thesis using run a5 by simp
qed

lemma get_auth_headers_with_token:
  "truthy (current_access_token s) \<Longrightarrow>
     get_auth_headers s = (''Zoho-oauthtoken '' @ py_str (current_access_token s), s)"
  by (simp add: get_auth_headers_def)

lemma unauthorized_one_refresh_one_retry:
  assumes "get_auth_headers s = (h, s1)"
      and "api_replies s1 = ApiResponse 401 tx js # reply # rest"
      and "truthy (current_refresh_token s1)"
      and "auth_replies s1 = AuthResponse 200 x (Some td) # arest"
      and "truthy (td_access_token td)"
  shows "sent (snd (make_authenticated_request m u b s)) =
           sent s1 @
             [ApiCall m u h b,
              AuthPost (RefreshGrant (current_refresh_token s1) (ZOHO_CLIENT_ID s1)
                          (ZOHO_CLIENT_SECRET s1)),
              ApiCall m u (''Zoho-oauthtoken '' @ py_str (td_access_token td)) b]"
proof -
  let ?s2 = "s1\<lparr>api_replies := reply # rest, sent := sent s1 @ [ApiCall m u h b]\<rparr>"
  have q: "requests_request m u h b s1 = (ApiResponse 401 tx js, ?s2)"
    using assms(2) by (simp add: requests_request_def)
  obtain s3 where
    f: "refresh_access_token ?s2 = (RefreshSuccess (td_access_token td), s3)" and
    tok: "current_access_token s3 = td_access_token td" and
    rep: "api_replies s3 = reply # rest" and
    ev: "sent s3 = sent s1 @ [ApiCall m u h b,
              AuthPost (RefreshGrant (current_refresh_token s1) (ZOHO_CLIENT_ID s1)
                          (ZOHO_CLIENT_SECRET s1))]"
    using assms(3,4,5)
    by (simp add: refresh_access_token_def requests_post_def save_tokens_def Let_def)
  have g: "get_auth_headers s3 = (''Zoho-oauthtoken '' @ py_str (td_access_token td), s3)"
    using get_auth_headers_with_token [of s3] tok assms(5) by simp
  show ?thesis
    using assms(1) q f g rep ev
    by (simp add: make_authenticated_request_def requests_request_def split: api_reply.splits)
qed

lemma api_calls_ZohoClient_ensure_valid_token:
  "filter is_api_call (zc_events (snd (ZohoClient_ensure_valid_token c))) =
     filter is_api_call (zc_events c)"
  by (simp add: ZohoClient_ensure_valid_token_def needs_refresh_def events_ZohoClient_refresh_access_token)

lemma api_calls_ZohoClient_rate_limit_check:
  "filter is_api_call (zc_events (snd (ZohoClient_rate_limit_check c))) =
     filter is_api_call (zc_events c)"
  by (simp add: ZohoClient_rate_limit_check_def asyncio_sleep_def Let_def split: list.splits)

lemma api_calls_ZohoClient_make_request:
  "length (filter is_api_call (zc_events (snd (ZohoClient_make_request m u b c))))
     \<le> length (filter is_api_call (zc_events c)) + 3"
proof -
  obtain r1 c1 where e: "ZohoClient_ensure_valid_token c = (r1, c1)"
    by (cases "ZohoClient_ensure_valid_token c")
  obtain r2 c2 where l: "ZohoClient_rate_limit_check c1 = (r2, c2)"
    by (cases "ZohoClient_rate_limit_check c1")
  have n1: "filter is_api_call (zc_events c1) = filter is_api_call (zc_events c)"
    using api_calls_ZohoClient_ensure_valid_token [of c] e by simp
  have n2: "filter is_api_call (zc_events c2) = filter is_api_call (zc_events c)"
    using api_calls_ZohoClient_rate_limit_check [of c1] l n1 by simp
  let ?h = "''Zoho-oauthtoken '' @ py_str (access_token c2)"
  have n3: "length (filter is_api_call (zc_events (snd (request_attempts [0, 1, 2] m u b ?h c2))))
              \<le> length (filter is_api_call (zc_events c)) + 3"
    using api_calls_request_attempts [of "[0, 1, 2]" m u b ?h c2] n2 by simp
  have "snd (ZohoClient_make_request m u b c) \<in>
          {c1, c2, snd (request_attempts [0, 1, 2] m u b ?h c2)}"
    using e l by (auto simp: ZohoClient_make_request_def split: sum.splits)
  then show ?thesis using n1 n2 n3 by auto
qed

text \<open>
  What the MCP server has sent after a refresh, and what a response 401 followed by a
  refresh that succeeds does to the loop of the client.
\<close>

lemma sent_refresh_access_token:
  "sent (snd (refresh_access_token s)) =
     sent s @
       (if truthy (current_refresh_token s)
        then [AuthPost (RefreshGrant (current_refresh_token s) (ZOHO_CLIENT_ID s)
                          (ZOHO_CLIENT_SECRET s))]
        else [])"
  by (simp add: refresh_access_token_def requests_post_def save_tokens_def Let_def
        split: list.splits auth_reply.splits option.splits)

lemma unauthorized_refresh_fails_trace:
  assumes "get_auth_headers s = (h, s1)"
      and "api_replies s1 = ApiResponse 401 tx js # rest"
      and "\<not> is_success (fst (refresh_access_token
               (s1\<lparr>api_replies := rest, sent := sent s1 @ [ApiCall m u h b]\<rparr>)))"
  shows "sent (snd (make_authenticated_request m u b s)) =
           sent s1 @ ApiCall m u h b #
             (if truthy (current_refresh_token s1)
              then [AuthPost (RefreshGrant (current_refresh_token s1) (ZOHO_CLIENT_ID s1)
                                (ZOHO_CLIENT_SECRET s1))]
              else [])"
proof -
  let ?s2 = "s1\<lparr>api_replies := rest, sent := sent s1 @ [ApiCall m u h b]\<rparr>"
  have q: "requests_request m u h b s1 = (ApiResponse 401 tx js, ?s2)"
    using assms(2) by (simp add: requests_request_def)
  obtain rr s3 where f: "refresh_access_token ?s2 = (rr, s3)"
    by (cases "refresh_access_token ?s2")
  have run: "snd (make_authenticated_request m u b s) = s3"
    using assms(1,3) q f by (simp add: make_authenticated_request_def)
  have "sent s3 = sent ?s2 @
          (if truthy (current_refresh_token ?s2)
           then [AuthPost (RefreshGrant (current_refresh_token ?s2) (ZOHO_CLIENT_ID ?s2)
                             (ZOHO_CLIENT_SECRET ?s2))]
           else [])"
    using sent_refresh_access_token [of ?s2] f by simp
  then show ?thesis using run by simp
qed

lemma api_replies_ZohoClient_refresh_access_token:
  "zc_api_replies (snd (ZohoClient_refresh_access_token c)) = zc_api_replies c"
  by (simp add: ZohoClient_refresh_access_token_def session_post_def post_sent_def
        response_arrives_def token_response_def Let_def
        split: list.splits auth_reply.splits option.splits)

lemma unauthorized_then_refreshed:
  assumes "zc_api_replies c = ApiResponse 401 t j # crest"
      and "ZohoClient_refresh_access_token (snd (session_request m u h b c)) = (Inr v, c')"
  shows "request_attempts (a # atts) m u b h c =
           request_attempts atts m u b (''Zoho-oauthtoken '' @ py_str (access_token c')) c'"
    and "zc_events c' = zc_events c @
           [ApiCall m u h b,
            AuthPost (RefreshGrant (refresh_token c) (client_id c) (client_secret c))]"
    and "zc_api_replies c' = crest"
proof -
  let ?c1 = "c\<lparr>zc_api_replies := crest, zc_events := zc_events c @ [ApiCall m u h b]\<rparr>"
  have q: "session_request m u h b c = (ApiResponse 401 t j, ?c1)"
    using assms(1) by (simp add: session_request_def)
  have f: "ZohoClient_refresh_access_token ?c1 = (Inr v, c')" using assms(2) q by simp
  show "request_attempts (a # atts) m u b h c =
           request_attempts atts m u b (''Zoho-oauthtoken '' @ py_str (access_token c')) c'"
    using q f by simp
  show "zc_events c' = zc_events c @
           [ApiCall m u h b,
            AuthPost (RefreshGrant (refresh_token c) (client_id c) (client_secret c))]"
    using events_ZohoClient_refresh_access_token [of ?c1] f by simp
  show "zc_api_replies c' = crest"
    using api_replies_ZohoClient_refresh_access_token [of ?c1] f by simp
qed

lemma second_unauthorized_sent_again:
  assumes "zc_api_replies c2 = ApiResponse 401 t1 j1 # ApiResponse 401 t2 j2 # crest"
      and "ZohoClient_refresh_access_token (snd (session_request m u h b c2)) = (Inr (), c3)"
      and "ZohoClient_refresh_access_token
             (snd (session_request m u (''Zoho-oauthtoken '' @ py_str (access_token c3)) b c3))
           = (Inr (), c4)"
  shows "prefix (zc_events c2 @
                   [ApiCall m u h b,
                    AuthPost (RefreshGrant (refresh_token c2) (client_id c2) (client_secret c2)),
                    ApiCall m u (''Zoho-oauthtoken '' @ py_str (access_token c3)) b,
                    AuthPost (RefreshGrant (refresh_token c3) (client_id c3) (client_secret c3)),
                    ApiCall m u (''Zoho-oauthtoken '' @ py_str (access_token c4)) b])
                (zc_events (snd (request_attempts [0, 1, 2] m u b h c2)))"
proof -
  note r1 = unauthorized_then_refreshed(1) [OF assms(1,2), of 0 "[1, 2]"]
  note s1 = unauthorized_then_refreshed(2,3) [OF assms(1,2)]
  note r2 = unauthorized_then_refreshed(1) [OF s1(2) assms(3), of 1 "[2]"]
  note s2 = unauthorized_then_refreshed(2,3) [OF s1(2) assms(3)]
  have run: "request_attempts [0, 1, 2] m u b h c2 =
               request_attempts [2] m u b (''Zoho-oauthtoken '' @ py_str (access_token c4)) c4"
    using r1 r2 by simp
  have ev: "zc_events c4 = zc_events c2 @
              [ApiCall m u h b,
               AuthPost (RefreshGrant (refresh_token c2) (client_id c2) (client_secret c2)),
               ApiCall m u (''Zoho-oauthtoken '' @ py_str (access_token c3)) b,
               AuthPost (RefreshGrant (refresh_token c3) (client_id c3) (client_secret c3))]"
    using s1(1) s2(1) by simp
  show ?thesis
    using prefix_request_attempts_first
            [of c4 m u "''Zoho-oauthtoken '' @ py_str (access_token c4)" b 2 "[]"] run ev
    by simp
qed

text \<open>
  Claim C1, as stated, fails: in \<open>ZohoClient._make_request\<close> a second 401 is not
  terminal. When the API answers 401, 401 and then 200 and both refreshes succeed, the
  request is sent three times and the call returns the body of the third response.
\<close>

theorem second_unauthorized_retried_counterexample:
  "ZohoClient_make_request ''GET'' ''https://www.zohoapis.com/crm/v3/Leads'' None
     client_401_twice =
   (Inr (ReturnedJson []),
    client_401_twice\<lparr>zc_api_replies := [], zc_auth_replies := [],
      access_token := Some ''AT2'', token_expires_at := Some 4540000000,
      request_timestamps := [1000000000],
      zc_events :=
        [ApiCall ''GET'' ''https://www.zohoapis.com/crm/v3/Leads'' ''Zoho-oauthtoken AT'' None,
         AuthPost (RefreshGrant (Some ''RT'') (Some ''id'') (Some ''secret'')),
         ApiCall ''GET'' ''https://www.zohoapis.com/crm/v3/Leads'' ''Zoho-oauthtoken AT1'' None,
         AuthPost (RefreshGrant (Some ''RT'') (Some ''id'') (Some ''secret'')),
         ApiCall ''GET'' ''https://www.zohoapis.com/crm/v3/Leads'' ''Zoho-oauthtoken AT2'' None]\<rparr>)"
  by (simp add: client_401_twice_def client0_def ZohoClient_make_request_def
        ZohoClient_ensure_valid_token_def needs_refresh_def ZohoClient_rate_limit_check_def
        session_request_def ZohoClient_refresh_access_token_def token_response_def
        datetime_ok_def timedelta_ok_def session_post_def post_sent_def response_arrives_def
        py_str_def Let_def)

text \<open>
  Claim C1, amended. In \<open>make_authenticated_request\<close> of the MCP server, after a first
  response 401 the outcome of \<open>refresh_access_token\<close> decides. When it fails, the
  401 response is returned, and all that has been sent is the request, once, and after
  it the refresh grant, if there is a refresh token to send. When it succeeds, the
  request is sent exactly once more and that response is returned, a second 401
  included. When there is a refresh token and the refresh is answered by 200 with a
  non-empty access token, exactly one grant is posted between the two sends, and the
  second send carries the new token. In \<open>ZohoClient._make_request\<close> a request is sent
  at most three times; when the first two responses are 401 and the refresh after each
  of them succeeds, the third send follows, each send after a refresh carrying the
  token that the refresh has stored.
\<close>

theorem unauthorized_retry:
  "(get_auth_headers s = (h, s1)
      \<and> api_replies s1 = ApiResponse 401 tx js # reply # rest
    \<longrightarrow>
      (\<not> is_success (fst (refresh_access_token
            (s1\<lparr>api_replies := reply # rest, sent := sent s1 @ [ApiCall m u h b]\<rparr>)))
       \<longrightarrow> fst (make_authenticated_request m u b s) = Inr (ApiResponse 401 tx js)
           \<and> sent (snd (make_authenticated_request m u b s)) =
               sent s1 @ ApiCall m u h b #
                 (if truthy (current_refresh_token s1)
                  then [AuthPost (RefreshGrant (current_refresh_token s1) (ZOHO_CLIENT_ID s1)
                                    (ZOHO_CLIENT_SECRET s1))]
                  else []))
      \<and> (is_success (fst (refresh_access_token
            (s1\<lparr>api_replies := reply # rest, sent := sent s1 @ [ApiCall m u h b]\<rparr>)))
       \<longrightarrow> fst (make_authenticated_request m u b s) =
             (case reply of ApiRaises e \<Rightarrow> Inl (RequestException e) | _ \<Rightarrow> Inr reply)
           \<and> api_side (snd (make_authenticated_request m u b s)) =
               (rest,
                snd (api_side s) @
                  [ApiCall m u h b,
                   ApiCall m u
                     (fst (get_auth_headers (snd (refresh_access_token
                        (s1\<lparr>api_replies := reply # rest,
                            sent := sent s1 @ [ApiCall m u h b]\<rparr>))))) b]))
      \<and> (truthy (current_refresh_token s1)
           \<and> auth_replies s1 = AuthResponse 200 x (Some td) # arest
           \<and> truthy (td_access_token td)
       \<longrightarrow> sent (snd (make_authenticated_request m u b s)) =
             sent s1 @
               [ApiCall m u h b,
                AuthPost (RefreshGrant (current_refresh_token s1) (ZOHO_CLIENT_ID s1)
                            (ZOHO_CLIENT_SECRET s1)),
                ApiCall m u (''Zoho-oauthtoken '' @ py_str (td_access_token td)) b]))
   \<and> length (filter is_api_call (zc_events (snd (ZohoClient_make_request m u b c))))
        \<le> length (filter is_api_call (zc_events c)) + 3
   \<and> (ZohoClient_ensure_valid_token c = (Inr (), c1)
      \<and> ZohoClient_rate_limit_check c1 = (Inr (), c2)
      \<and> zc_api_replies c2 = ApiResponse 401 t1 j1 # ApiResponse 401 t2 j2 # crest
      \<and> ZohoClient_refresh_access_token
           (snd (session_request m u (''Zoho-oauthtoken '' @ py_str (access_token c2)) b c2))
          = (Inr (), c3)
      \<and> ZohoClient_refresh_access_token
           (snd (session_request m u (''Zoho-oauthtoken '' @ py_str (access_token c3)) b c3))
          = (Inr (), c4)
    \<longrightarrow> prefix (zc_events c2 @
                  [ApiCall m u (''Zoho-oauthtoken '' @ py_str (access_token c2)) b,
                   AuthPost (RefreshGrant (refresh_token c2) (client_id c2) (client_secret c2)),
                   ApiCall m u (''Zoho-oauthtoken '' @ py_str (access_token c3)) b,
                   AuthPost (RefreshGrant (refresh_token c3) (client_id c3) (client_secret c3)),
                   ApiCall m u (''Zoho-oauthtoken '' @ py_str (access_token c4)) b])
               (zc_events (snd (ZohoClient_make_request m u b c))))"
proof (intro conjI impI)
  assume a: "get_auth_headers s = (h, s1)
      \<and> api_replies s1 = ApiResponse 401 tx js # reply # rest"
  {
    assume f: "\<not> is_success (fst (refresh_access_token
            (s1\<lparr>api_replies := reply # rest, sent := sent s1 @ [ApiCall m u h b]\<rparr>)))"
    show "fst (make_authenticated_request m u b s) = Inr (ApiResponse 401 tx js)"
      using unauthorized_refresh_fails [of s h s1 tx js "reply # rest" m u b] a f by simp
    show "sent (snd (make_authenticated_request m u b s)) =
               sent s1 @ ApiCall m u h b #
                 (if truthy (current_refresh_token s1)
                  then [AuthPost (RefreshGrant (current_refresh_token s1) (ZOHO_CLIENT_ID s1)
                                    (ZOHO_CLIENT_SECRET s1))]
                  else [])"
      using unauthorized_refresh_fails_trace [of s h s1 tx js "reply # rest" m u b] a f by simp
  }
  {
    assume f: "is_success (fst (refresh_access_token
            (s1\<lparr>api_replies := reply # rest, sent := sent s1 @ [ApiCall m u h b]\<rparr>)))"
    show "fst (make_authenticated_request m u b s) =
             (case reply of ApiRaises e \<Rightarrow> Inl (RequestException e) | _ \<Rightarrow> Inr reply)"
      and "api_side (snd (make_authenticated_request m u b s)) =
               (rest,
                snd (api_side s) @
                  [ApiCall m u h b,
                   ApiCall m u
                     (fst (get_auth_headers (snd (refresh_access_token
                        (s1\<lparr>api_replies := reply # rest,
                            sent := sent s1 @ [ApiCall m u h b]\<rparr>))))) b])"
      using unauthorized_refresh_succeeds [of s h s1 tx js reply rest m u b, OF _ _ _ refl] a f
      by simp_all
  }
  {
    assume "truthy (current_refresh_token s1)
           \<and> auth_replies s1 = AuthResponse 200 x (Some td) # arest
           \<and> truthy (td_access_token td)"
    then show "sent (snd (make_authenticated_request m u b s)) =
             sent s1 @
               [ApiCall m u h b,
                AuthPost (RefreshGrant (current_refresh_token s1) (ZOHO_CLIENT_ID s1)
                            (ZOHO_CLIENT_SECRET s1)),
                ApiCall m u (''Zoho-oauthtoken '' @ py_str (td_access_token td)) b]"
      using unauthorized_one_refresh_one_retry [of s h s1 tx js reply rest x td arest m u b] a
      by simp
  }
next
  show "length (filter is_api_call (zc_events (snd (ZohoClient_make_request m u b c))))
        \<le> length (filter is_api_call (zc_events c)) + 3"
    by (rule api_calls_ZohoClient_make_request)
next
  assume a: "ZohoClient_ensure_valid_token c = (Inr (), c1)
      \<and> ZohoClient_rate_limit_check c1 = (Inr (), c2)
      \<and> zc_api_replies c2 = ApiResponse 401 t1 j1 # ApiResponse 401 t2 j2 # crest
      \<and> ZohoClient_refresh_access_token
           (snd (session_request m u (''Zoho-oauthtoken '' @ py_str (access_token c2)) b c2))
          = (Inr (), c3)
      \<and> ZohoClient_refresh_access_token
           (snd (session_request m u (''Zoho-oauthtoken '' @ py_str (access_token c3)) b c3))
          = (Inr (), c4)"
  then have run: "ZohoClient_make_request m u b c =
      request_attempts [0, 1, 2] m u b (''Zoho-oauthtoken '' @ py_str (access_token c2)) c2"
    by (simp add: ZohoClient_make_request_def)
  show "prefix (zc_events c2 @
                  [ApiCall m u (''Zoho-oauthtoken '' @ py_str (access_token c2)) b,
                   AuthPost (RefreshGrant (refresh_token c2) (client_id c2) (client_secret c2)),
                   ApiCall m u (''Zoho-oauthtoken '' @ py_str (access_token c3)) b,
                   AuthPost (RefreshGrant (refresh_token c3) (client_id c3) (client_secret c3)),
                   ApiCall m u (''Zoho-oauthtoken '' @ py_str (access_token c4)) b])
               (zc_events (snd (ZohoClient_make_request m u b c)))"
    using second_unauthorized_sent_again
            [of c2 t1 j1 t2 j2 crest m u "''Zoho-oauthtoken '' @ py_str (access_token c2)" b c3 c4]
          a run
    by simp
qed

theorem unauthorized_retry_witness:
  "fst (make_authenticated_request ''GET'' ''https://www.zohoapis.com/crm/v2/Leads'' None
          server_401_refresh_refused) = Inr (ApiResponse 401 ''expired'' None)
   \<and> sent (snd (make_authenticated_request ''GET'' ''https://www.zohoapis.com/crm/v2/Leads''
          None server_401_refresh_refused)) =
       [ApiCall ''GET'' ''https://www.zohoapis.com/crm/v2/Leads'' ''Zoho-oauthtoken AT'' None,
        AuthPost (RefreshGrant (Some ''RT'') (Some ''id'') (Some ''secret''))]
   \<and> fst (make_authenticated_request ''GET'' ''https://www.zohoapis.com/crm/v2/Leads'' None
          server_401_twice) = Inr (ApiResponse 401 ''expired'' None)
   \<and> sent (snd (make_authenticated_request ''GET'' ''https://www.zohoapis.com/crm/v2/Leads'' None
          server_401_twice)) =
       [ApiCall ''GET'' ''https://www.zohoapis.com/crm/v2/Leads'' ''Zoho-oauthtoken AT'' None,
        AuthPost (RefreshGrant (Some ''RT'') (Some ''id'') (Some ''secret'')),
        ApiCall ''GET'' ''https://www.zohoapis.com/crm/v2/Leads'' ''Zoho-oauthtoken AT1'' None]
   \<and> prefix
        [ApiCall ''GET'' ''https://www.zohoapis.com/crm/v3/Leads'' ''Zoho-oauthtoken AT'' None,
         AuthPost (RefreshGrant (Some ''RT'') (Some ''id'') (Some ''secret'')),
         ApiCall ''GET'' ''https://www.zohoapis.com/crm/v3/Leads'' ''Zoho-oauthtoken AT1'' None,
         AuthPost (RefreshGrant (Some ''RT'') (Some ''id'') (Some ''secret'')),
         ApiCall ''GET'' ''https://www.zohoapis.com/crm/v3/Leads'' ''Zoho-oauthtoken AT2'' None]
        (zc_events (snd (ZohoClient_make_request ''GET'' ''https://www.zohoapis.com/crm/v3/Leads''
           None client_401_twice)))"
proof -
  let ?u = "''https://www.zohoapis.com/crm/v2/Leads''"
  let ?v = "''https://www.zohoapis.com/crm/v3/Leads''"
  let ?h = "''Zoho-oauthtoken AT''"
  let ?td = "\<lparr>td_access_token = Some ''AT1'', td_refresh_token = None,
               td_expires_in = Some 3600\<rparr>"
  let ?td2 = "\<lparr>td_access_token = Some ''AT2'', td_refresh_token = None,
               td_expires_in = Some 3600\<rparr>"
  let ?g = "AuthPost (RefreshGrant (Some ''RT'') (Some ''id'') (Some ''secret''))"
  have g1: "get_auth_headers server_401_refresh_refused = (?h, server_401_refresh_refused)"
    by (simp add: get_auth_headers_def server_401_refresh_refused_def server0_def truthy_def
          py_str_def)
  have r1: "api_replies server_401_refresh_refused =
              ApiResponse 401 ''expired'' None # ApiResponse 200 ''[]'' (Some []) # []"
    by (simp add: server_401_refresh_refused_def server0_def)
  have f1: "\<not> is_success (fst (refresh_access_token
              (server_401_refresh_refused\<lparr>api_replies := ApiResponse 200 ''[]'' (Some []) # [],
                 sent := sent server_401_refresh_refused @ [ApiCall ''GET'' ?u ?h None]\<rparr>)))"
    by (simp add: refresh_access_token_def requests_post_def server_401_refresh_refused_def
          server0_def truthy_def)
  have a1: "truthy (current_refresh_token server_401_refresh_refused)"
       "sent server_401_refresh_refused = []"
       "current_refresh_token server_401_refresh_refused = Some ''RT''"
       "ZOHO_CLIENT_ID server_401_refresh_refused = Some ''id''"
       "ZOHO_CLIENT_SECRET server_401_refresh_refused = Some ''secret''"
    by (simp_all add: server_401_refresh_refused_def server0_def truthy_def)
  have g2: "get_auth_headers server_401_twice = (?h, server_401_twice)"
    by (simp add: get_auth_headers_def server_401_twice_def server0_def truthy_def py_str_def)
  have r2: "api_replies server_401_twice =
              ApiResponse 401 ''expired'' None # ApiResponse 401 ''expired'' None # []"
    by (simp add: server_401_twice_def server0_def)
  have f2: "is_success (fst (refresh_access_token
              (server_401_twice\<lparr>api_replies := ApiResponse 401 ''expired'' None # [],
                 sent := sent server_401_twice @ [ApiCall ''GET'' ?u ?h None]\<rparr>)))"
    by (simp add: refresh_access_token_def requests_post_def save_tokens_def
          server_401_twice_def server0_def truthy_def Let_def)
  have t2: "truthy (current_refresh_token server_401_twice)"
       "auth_replies server_401_twice = AuthResponse 200 ''ok'' (Some ?td) # []"
       "truthy (td_access_token ?td)"
       "sent server_401_twice = []"
       "current_refresh_token server_401_twice = Some ''RT''"
       "ZOHO_CLIENT_ID server_401_twice = Some ''id''"
       "ZOHO_CLIENT_SECRET server_401_twice = Some ''secret''"
    by (simp_all add: server_401_twice_def server0_def truthy_def)
  let ?c2 = "client_401_twice\<lparr>request_timestamps := [1000000000]\<rparr>"
  let ?c3 = "client_401_twice\<lparr>request_timestamps := [1000000000],
               zc_api_replies := [ApiResponse 401 ''expired'' None, ApiResponse 200 ''[]'' (Some [])],
               zc_auth_replies := [AuthResponse 200 ''ok'' (Some ?td2)],
               access_token := Some ''AT1'', token_expires_at := Some 4540000000,
               zc_events := [ApiCall ''GET'' ?v ?h None, ?g]\<rparr>"
  let ?c4 = "client_401_twice\<lparr>request_timestamps := [1000000000],
               zc_api_replies := [ApiResponse 200 ''[]'' (Some [])],
               zc_auth_replies := [],
               access_token := Some ''AT2'', token_expires_at := Some 4540000000,
               zc_events := [ApiCall ''GET'' ?v ?h None, ?g,
                             ApiCall ''GET'' ?v ''Zoho-oauthtoken AT1'' None, ?g]\<rparr>"
  have e3: "ZohoClient_ensure_valid_token client_401_twice = (Inr (), client_401_twice)"
    by (simp add: ZohoClient_ensure_valid_token_def needs_refresh_def client_401_twice_def
          client0_def)
  have l3: "ZohoClient_rate_limit_check client_401_twice = (Inr (), ?c2)"
    by (simp add: ZohoClient_rate_limit_check_def client_401_twice_def client0_def Let_def)
  have r3: "zc_api_replies ?c2 =
              ApiResponse 401 ''expired'' None # ApiResponse 401 ''expired'' None
                # [ApiResponse 200 ''[]'' (Some [])]"
       "zc_events ?c2 = []" "access_token ?c2 = Some ''AT''" "refresh_token ?c2 = Some ''RT''"
       "client_id ?c2 = Some ''id''" "client_secret ?c2 = Some ''secret''"
       "access_token ?c3 = Some ''AT1''" "refresh_token ?c3 = Some ''RT''"
       "client_id ?c3 = Some ''id''" "client_secret ?c3 = Some ''secret''"
       "access_token ?c4 = Some ''AT2''"
    by (simp_all add: client_401_twice_def client0_def)
  have f3: "ZohoClient_refresh_access_token (snd (session_request ''GET'' ?v ?h None ?c2))
              = (Inr (), ?c3)"
    by (simp add: client_401_twice_def client0_def session_request_def
          ZohoClient_refresh_access_token_def token_response_def datetime_ok_def
          timedelta_ok_def session_post_def post_sent_def response_arrives_def Let_def)
  have f4: "ZohoClient_refresh_access_token
              (snd (session_request ''GET'' ?v ''Zoho-oauthtoken AT1'' None ?c3))
              = (Inr (), ?c4)"
    by (simp add: client_401_twice_def client0_def session_request_def
          ZohoClient_refresh_access_token_def token_response_def datetime_ok_def
          timedelta_ok_def session_post_def post_sent_def response_arrives_def Let_def)
  note refused =
    unauthorized_retry
      [where s = server_401_refresh_refused and h = ?h and ?s1.0 = server_401_refresh_refused
         and tx = "''expired''" and js = None and reply = "ApiResponse 200 ''[]'' (Some [])"
         and rest = "[]" and m = "''GET''" and u = ?u and b = None]
  note granted =
    unauthorized_retry
      [where s = server_401_twice and h = ?h and ?s1.0 = server_401_twice
         and tx = "''expired''" and js = None and reply = "ApiResponse 401 ''expired'' None"
         and rest = "[]" and m = "''GET''" and u = ?u and b = None
         and x = "''ok''" and td = ?td and arest = "[]"]
  note thrice =
    unauthorized_retry
      [where c = client_401_twice and ?c1.0 = client_401_twice and ?c2.0 = ?c2
         and ?t1.0 = "''expired''" and ?j1.0 = None and ?t2.0 = "''expired''" and ?j2.0 = None
         and crest = "[ApiResponse 200 ''[]'' (Some [])]"
         and ?c3.0 = ?c3 and ?c4.0 = ?c4
         and m = "''GET''" and u = ?v and b = None]
  have p1: "fst (make_authenticated_request ''GET'' ?u None server_401_refresh_refused)
              = Inr (ApiResponse 401 ''expired'' None)
            \<and> sent (snd (make_authenticated_request ''GET'' ?u None
                  server_401_refresh_refused)) = [ApiCall ''GET'' ?u ?h None, ?g]"
    using refused g1 r1 f1 a1 by simp
  have p2: "fst (make_authenticated_request ''GET'' ?u None server_401_twice)
              = Inr (ApiResponse 401 ''expired'' None)
            \<and> sent (snd (make_authenticated_request ''GET'' ?u None server_401_twice)) =
                [ApiCall ''GET'' ?u ?h None, ?g,
                 ApiCall ''GET'' ?u ''Zoho-oauthtoken AT1'' None]"
    using granted g2 r2 f2 t2 by (simp add: py_str_def)
  have p3: "prefix
        [ApiCall ''GET'' ?v ?h None, ?g,
         ApiCall ''GET'' ?v ''Zoho-oauthtoken AT1'' None, ?g,
         ApiCall ''GET'' ?v ''Zoho-oauthtoken AT2'' None]
        (zc_events (snd (ZohoClient_make_request ''GET'' ?v None client_401_twice)))"
    using thrice e3 l3 r3 f3 f4 by (simp add: py_str_def)
  show ?thesis using p1 p2 p3 by simp
qed

section \<open>Properties of the asynchronous client\<close>

subsection \<open>A token that expires at once\<close>




subsection \<open>The rate limit\<close>







section \<open>Properties of concurrent callers\<close>

text \<open>
  The two halves of the POST make up the refresh, and one caller scheduled twice does
  what \<open>_ensure_valid_token\<close>, or \<open>get_valid_token\<close>, does.
\<close>

lemma refresh_in_two_steps:
  "ZohoClient_refresh_access_token c =
     (case response_arrives (post_sent c) of (reply, c1) \<Rightarrow> token_response reply c1)"
  by (simp add: ZohoClient_refresh_access_token_def session_post_def)

lemma one_caller_alone:
  "run_schedule [Run 0, Run 0] (c, [AtCheck]) =
     (snd (ZohoClient_ensure_valid_token c), [Returned (fst (ZohoClient_ensure_valid_token c))])"
  by (simp add: ZohoClient_ensure_valid_token_def refresh_in_two_steps split: prod.splits)

lemma one_caller_alone_consolidated:
  "run_schedule_consolidated [Run 0, Run 0] (s, [AtCheck]) =
     (snd (get_valid_token s), [Returned (fst (get_valid_token s))])"
  by (simp add: get_valid_token_def split: prod.splits)










end
